theory Spec2Isabelle
  imports Main "HOL-Library.Sublist" "HOL-Library.AList"
begin

section \<open>JavaScript values and exceptions\<close>

text \<open>
  The gateway of \<^verbatim>\<open>main.ts\<close> (class \<^verbatim>\<open>Dynamics365\<close>) passes request bodies and decoded
  responses around as \<^verbatim>\<open>any\<close>. They are modelled as JSON trees plus \<^verbatim>\<open>undefined\<close>. Numbers
  are IEEE doubles in the source; the model leaves their type \<open>'n\<close> open and takes the two
  operations the gateway needs on them (truthiness, conversion to a string) from the
  runtime record below.
\<close>

datatype 'n jsval =
    JUndefined
  | JNull
  | JBool bool
  | JNum 'n
  | JStr string
  | JArr "'n jsval list"
  | JObj "(string \<times> 'n jsval) list"

text \<open>
  A thrown value is either an instance of \<^verbatim>\<open>Error\<close> (with the name of its constructor and
  its \<^verbatim>\<open>message\<close>) or some other value, of which only \<^verbatim>\<open>String(value)\<close> is ever read.
\<close>

datatype thrown =
    ErrorObject string string
  | NonError string

fun constructor_name :: "thrown \<Rightarrow> string option" where
  "constructor_name (ErrorObject c m) = Some c"
| "constructor_name (NonError s) = None"

text \<open>\<^verbatim>\<open>new Error(m)\<close>\<close>

definition new_Error :: "string \<Rightarrow> thrown" where
  "new_Error m = ErrorObject ''Error'' m"

text \<open>\<^verbatim>\<open>error instanceof Error ? error.message : String(error)\<close>\<close>

fun error_text :: "thrown \<Rightarrow> string" where
  "error_text (ErrorObject c m) = m"
| "error_text (NonError s) = s"

section \<open>The outside world\<close>

record Configuration =
  auth_clientId :: string
  auth_authority :: string
  auth_clientSecret :: string

record ClientCredentialRequest =
  scopes :: "string list"

record AuthenticationResult =
  accessToken :: string

record http_request =
  url :: string
  http_method :: string
  headers :: "string \<rightharpoonup> string"
  body :: "string option"

record 'n Response =
  ok :: bool
  status :: nat
  text_body :: "thrown + string"
  json_body :: "thrown + 'n jsval"

text \<open>
  Every effect of the gateway is recorded in a trace: a token exchange with the identity
  provider, an HTTP request handed to \<^verbatim>\<open>fetch\<close>, a line written by \<^verbatim>\<open>console.error\<close>.
\<close>

datatype event =
    AcquireToken Configuration ClientCredentialRequest
  | Fetch http_request
  | ConsoleError string thrown

text \<open>
  The runtime and the two remote parties are parameters. The answers of the identity
  provider and of the resource API may depend on everything that happened before.
  \<^item> \<open>URL_origin\<close> is \<^verbatim>\<open>new URL(s).origin\<close>, which throws on a string that is no URL;
  \<^item> \<open>acquireTokenByClientCredential\<close> is the MSAL call; \<open>None\<close> is a \<^verbatim>\<open>null\<close> response;
  \<^item> \<open>fetch\<close> is the global \<^verbatim>\<open>fetch\<close>; \<open>ok\<close> and \<open>status\<close> are read from its response as
    they come, \<open>text_body\<close> and \<open>json_body\<close> are what \<^verbatim>\<open>await response.text()\<close> and
    \<^verbatim>\<open>await response.json()\<close> give, each of which may throw;
  \<^item> \<open>JSON_stringify\<close> is \<^verbatim>\<open>JSON.stringify\<close>, which returns a string on every truthy value
    of the tree-shaped universe above.
\<close>

record 'n env =
  num_falsy :: "'n \<Rightarrow> bool"
  num_to_string :: "'n \<Rightarrow> string"
  JSON_stringify :: "'n jsval \<Rightarrow> string"
  URL_origin :: "string \<Rightarrow> thrown + string"
  acquireTokenByClientCredential ::
    "event list \<Rightarrow> Configuration \<Rightarrow> ClientCredentialRequest
       \<Rightarrow> thrown + AuthenticationResult option"
  fetch :: "event list \<Rightarrow> http_request \<Rightarrow> thrown + 'n Response"

fun fetches :: "event list \<Rightarrow> http_request list" where
  "fetches [] = []"
| "fetches (Fetch r # es) = r # fetches es"
| "fetches (AcquireToken c q # es) = fetches es"
| "fetches (ConsoleError s e # es) = fetches es"

fun acquisitions :: "event list \<Rightarrow> ClientCredentialRequest list" where
  "acquisitions [] = []"
| "acquisitions (AcquireToken c q # es) = q # acquisitions es"
| "acquisitions (Fetch r # es) = acquisitions es"
| "acquisitions (ConsoleError s e # es) = acquisitions es"

section \<open>Language primitives\<close>

text \<open>JavaScript truthiness: what \<^verbatim>\<open>!v\<close> and \<^verbatim>\<open>v ? a : b\<close> test.\<close>

fun truthy :: "'n env \<Rightarrow> 'n jsval \<Rightarrow> bool" where
  "truthy E JUndefined = False"
| "truthy E JNull = False"
| "truthy E (JBool b) = b"
| "truthy E (JNum n) = (\<not> num_falsy E n)"
| "truthy E (JStr s) = (s \<noteq> [])"
| "truthy E (JArr xs) = True"
| "truthy E (JObj fs) = True"

fun join_comma :: "string list \<Rightarrow> string" where
  "join_comma [] = []"
| "join_comma [s] = s"
| "join_comma (s # t # ss) = s @ '','' @ join_comma (t # ss)"

text \<open>
  \<^verbatim>\<open>String(v)\<close>, as a template literal applies it to an interpolated value. A decoded
  object is converted by the \<^verbatim>\<open>toString\<close> it inherits, unless it has a property of that
  name of its own: that one is no function, the inherited \<^verbatim>\<open>valueOf\<close> gives the object
  back, and the conversion throws a \<^verbatim>\<open>TypeError\<close> (the message is V8's). An array joins the
  conversions of its elements, with nothing for \<^verbatim>\<open>null\<close> and \<^verbatim>\<open>undefined\<close>, and throws
  where the first of them throws.
\<close>

definition cannot_convert :: thrown where
  "cannot_convert = ErrorObject ''TypeError'' ''Cannot convert object to primitive value''"

fun ToString :: "'n env \<Rightarrow> 'n jsval \<Rightarrow> thrown + string"
  and join_elements :: "'n env \<Rightarrow> 'n jsval list \<Rightarrow> thrown + string list" where
  "ToString E JUndefined = Inr ''undefined''"
| "ToString E JNull = Inr ''null''"
| "ToString E (JBool b) = Inr (if b then ''true'' else ''false'')"
| "ToString E (JNum n) = Inr (num_to_string E n)"
| "ToString E (JStr s) = Inr s"
| "ToString E (JArr xs) =
     (case join_elements E xs of Inl e \<Rightarrow> Inl e | Inr ss \<Rightarrow> Inr (join_comma ss))"
| "ToString E (JObj fs) =
     (if map_of fs ''toString'' = None then Inr ''[object Object]'' else Inl cannot_convert)"
| "join_elements E [] = Inr []"
| "join_elements E (x # xs) =
     (case (if x = JUndefined \<or> x = JNull then Inr [] else ToString E x) of
        Inl e \<Rightarrow> Inl e
      | Inr s \<Rightarrow>
          (case join_elements E xs of Inl e \<Rightarrow> Inl e | Inr ss \<Rightarrow> Inr (s # ss)))"

text \<open>
  Reading a property that is not built in (\<^verbatim>\<open>UserId\<close>, \<^verbatim>\<open>domainname\<close>, \<^verbatim>\<open>fullname\<close>): a
  \<^verbatim>\<open>TypeError\<close> on \<^verbatim>\<open>null\<close> and \<^verbatim>\<open>undefined\<close> (the message is V8's), the stored value on an
  object that has the property, \<^verbatim>\<open>undefined\<close> everywhere else.
\<close>

definition cannot_read :: "string \<Rightarrow> string \<Rightarrow> thrown" where
  "cannot_read what k =
     ErrorObject ''TypeError''
       (''Cannot read properties of '' @ what @ '' (reading '' @ [CHR 0x27] @ k @ [CHR 0x27] @ '')'')"

fun get_prop :: "'n jsval \<Rightarrow> string \<Rightarrow> thrown + 'n jsval" where
  "get_prop JUndefined k = Inl (cannot_read ''undefined'' k)"
| "get_prop JNull k = Inl (cannot_read ''null'' k)"
| "get_prop (JObj fs) k = Inr (case map_of fs k of Some v \<Rightarrow> v | None \<Rightarrow> JUndefined)"
| "get_prop v k = Inr JUndefined"

text \<open>
  Assigning a property. The gateway assigns only to a value it has just read a truthy
  \<^verbatim>\<open>UserId\<close> from, which is an object; other values are left as they are.
\<close>

fun set_prop :: "'n jsval \<Rightarrow> string \<Rightarrow> 'n jsval \<Rightarrow> 'n jsval" where
  "set_prop (JObj fs) k v = JObj (AList.update k v fs)"
| "set_prop d k v = d"

text \<open>\<^verbatim>\<open>s.endsWith("/")\<close>\<close>

definition endsWith_slash :: "string \<Rightarrow> bool" where
  "endsWith_slash s = (s \<noteq> [] \<and> last s = CHR ''/'')"

text \<open>The decimal digits of a status code, as \<^verbatim>\<open>${response.status}\<close> prints them.\<close>

function string_of_nat :: "nat \<Rightarrow> string" where
  "string_of_nat n =
     (if n < 10 then [''0123456789'' ! n]
      else string_of_nat (n div 10) @ [''0123456789'' ! (n mod 10)])"
  by pat_completeness auto
termination
  by (relation "measure (\<lambda>n. n)") auto

declare string_of_nat.simps [simp del]

section \<open>The gateway\<close>

record Dynamics365 =
  clientId :: string
  clientSecret :: string
  tenantId :: string
  d365Url :: string
  msalInstance :: Configuration

text \<open>The constructor: it stores the four values and configures the MSAL client.\<close>

definition new_Dynamics365 :: "string \<Rightarrow> string \<Rightarrow> string \<Rightarrow> string \<Rightarrow> Dynamics365" where
  "new_Dynamics365 cid secret tenant u =
     \<lparr> clientId = cid, clientSecret = secret, tenantId = tenant, d365Url = u,
       msalInstance =
         \<lparr> auth_clientId = cid,
           auth_authority = ''https://login.microsoftonline.com/'' @ tenant,
           auth_clientSecret = secret \<rparr> \<rparr>"

type_synonym 'a outcome = "(thrown + 'a) \<times> event list"

subsection \<open>authenticate\<close>

definition auth_prefix :: string where
  "auth_prefix = ''Failed to authenticate with Dynamics 365: ''"

text \<open>The body of the \<^verbatim>\<open>try\<close> block, after the identity provider has answered.\<close>

definition usable_token :: "thrown + AuthenticationResult option \<Rightarrow> thrown + string" where
  "usable_token answer =
     (case answer of
        Inl e \<Rightarrow> Inl e
      | Inr response \<Rightarrow>
          (case response of
             None \<Rightarrow> Inl (new_Error ''Token acquisition failed: response is null or invalid.'')
           | Some r \<Rightarrow>
               if accessToken r \<noteq> [] then Inr (accessToken r)
               else Inl (new_Error ''Token acquisition failed: response is null or invalid.'')))"

definition authenticate :: "'n env \<Rightarrow> Dynamics365 \<Rightarrow> event list \<Rightarrow> string outcome" where
  "authenticate E this tr =
     (case URL_origin E (d365Url this) of
        Inl e \<Rightarrow> (Inl e, tr)
      | Inr origin \<Rightarrow>
          (let tokenRequest = \<lparr> scopes = [origin @ ''/.default''] \<rparr>;
               tr1 = tr @ [AcquireToken (msalInstance this) tokenRequest]
           in case usable_token
                     (acquireTokenByClientCredential E tr (msalInstance this) tokenRequest) of
                Inr token \<Rightarrow> (Inr token, tr1)
              | Inl error \<Rightarrow>
                  (Inl (new_Error (auth_prefix @ error_text error)),
                   tr1 @ [ConsoleError ''Token acquisition failed:'' error])))"

subsection \<open>makeApiRequest\<close>

definition api_prefix :: string where
  "api_prefix = ''Failed to make API request: ''"

definition request_url :: "Dynamics365 \<Rightarrow> string \<Rightarrow> string" where
  "request_url this endpoint =
     (let baseUrl = (if endsWith_slash (d365Url this) then d365Url this
                     else d365Url this @ ''/'')
      in baseUrl @ endpoint)"

definition standard_headers :: "string \<Rightarrow> (string \<rightharpoonup> string)" where
  "standard_headers token =
     [''Authorization'' \<mapsto> ''Bearer '' @ token,
      ''Accept'' \<mapsto> ''application/json'',
      ''Content-Type'' \<mapsto> ''application/json'',
      ''OData-MaxVersion'' \<mapsto> ''4.0'',
      ''OData-Version'' \<mapsto> ''4.0'']"

text \<open>The object literal with the spread of \<^verbatim>\<open>additionalHeaders\<close> (possibly undefined).\<close>

definition request_headers :: "string \<Rightarrow> (string \<rightharpoonup> string) option \<Rightarrow> (string \<rightharpoonup> string)" where
  "request_headers token additionalHeaders =
     standard_headers token ++ (case additionalHeaders of None \<Rightarrow> Map.empty | Some h \<Rightarrow> h)"

definition api_request ::
  "'n env \<Rightarrow> Dynamics365 \<Rightarrow> string \<Rightarrow> string \<Rightarrow> string \<Rightarrow> 'n jsval
     \<Rightarrow> (string \<rightharpoonup> string) option \<Rightarrow> http_request" where
  "api_request E this token endpoint meth bdy additionalHeaders =
     \<lparr> url = request_url this endpoint,
       http_method = meth,
       headers = request_headers token additionalHeaders,
       body = (if truthy E bdy then Some (JSON_stringify E bdy) else None) \<rparr>"

text \<open>The body of the \<^verbatim>\<open>try\<close> block, after \<^verbatim>\<open>fetch\<close> has settled.\<close>

definition decode_response :: "thrown + 'n Response \<Rightarrow> thrown + 'n jsval" where
  "decode_response settled =
     (case settled of
        Inl e \<Rightarrow> Inl e
      | Inr response \<Rightarrow>
          if \<not> ok response then
            (case text_body response of
               Inl e \<Rightarrow> Inl e
             | Inr t \<Rightarrow>
                 Inl (new_Error (''API request failed with status: ''
                        @ string_of_nat (status response) @ '', message: '' @ t)))
          else json_body response)"

definition makeApiRequest ::
  "'n env \<Rightarrow> Dynamics365 \<Rightarrow> string \<Rightarrow> string \<Rightarrow> 'n jsval
     \<Rightarrow> (string \<rightharpoonup> string) option \<Rightarrow> event list \<Rightarrow> 'n jsval outcome" where
  "makeApiRequest E this endpoint meth bdy additionalHeaders tr =
     (case authenticate E this tr of
        (Inl e, tr1) \<Rightarrow> (Inl e, tr1)
      | (Inr token, tr1) \<Rightarrow>
          (let req = api_request E this token endpoint meth bdy additionalHeaders;
               tr2 = tr1 @ [Fetch req]
           in case decode_response (fetch E tr1 req) of
                Inr v \<Rightarrow> (Inr v, tr2)
              | Inl error \<Rightarrow>
                  (Inl (new_Error (api_prefix @ error_text error)),
                   tr2 @ [ConsoleError (''API request to '' @ url req @ '' failed:'') error])))"

subsection \<open>The typed operations\<close>

definition prefer_annotations :: "string \<rightharpoonup> string" where
  \<open>prefer_annotations = [''Prefer'' \<mapsto> ''odata.include-annotations="*"'']\<close>

definition carries_UserId :: "'n env \<Rightarrow> 'n jsval \<Rightarrow> bool" where
  "carries_UserId E data =
     (truthy E data \<and> (case get_prop data ''UserId'' of Inl e \<Rightarrow> False | Inr v \<Rightarrow> truthy E v))"

definition UserId_of :: "'n jsval \<Rightarrow> 'n jsval" where
  "UserId_of data = (case get_prop data ''UserId'' of Inl e \<Rightarrow> JUndefined | Inr v \<Rightarrow> v)"

definition makeWhoAmIRequest :: "'n env \<Rightarrow> Dynamics365 \<Rightarrow> event list \<Rightarrow> 'n jsval outcome" where
  "makeWhoAmIRequest E this tr =
     (case makeApiRequest E this ''api/data/v9.2/WhoAmI'' ''GET'' JUndefined None tr of
        (Inl e, tr1) \<Rightarrow> (Inl e, tr1)
      | (Inr data, tr1) \<Rightarrow>
          if carries_UserId E data then
            (case ToString E (UserId_of data) of
               Inl e \<Rightarrow> (Inl e, tr1)
             | Inr userId \<Rightarrow>
                 (case makeApiRequest E this
                         (''api/data/v9.2/systemusers('' @ userId @ '')'')
                         ''GET'' JUndefined (Some prefer_annotations) tr1 of
                    (Inl e, tr2) \<Rightarrow> (Inl e, tr2)
                  | (Inr userDetails, tr2) \<Rightarrow>
                      (case get_prop userDetails ''domainname'' of
                         Inl e \<Rightarrow> (Inl e, tr2)
                       | Inr domainname \<Rightarrow>
                           (case get_prop userDetails ''fullname'' of
                              Inl e \<Rightarrow> (Inl e, tr2)
                            | Inr fullname \<Rightarrow>
                                (Inr (set_prop (set_prop data ''UserName'' domainname)
                                        ''FullName'' fullname), tr2)))))
          else (Inr data, tr1))"

definition getAccounts :: "'n env \<Rightarrow> Dynamics365 \<Rightarrow> event list \<Rightarrow> 'n jsval outcome" where
  "getAccounts E this tr = makeApiRequest E this ''api/data/v9.2/accounts'' ''GET'' JUndefined None tr"

definition getAssociatedContacts ::
  "'n env \<Rightarrow> Dynamics365 \<Rightarrow> string \<Rightarrow> event list \<Rightarrow> 'n jsval outcome" where
  "getAssociatedContacts E this accountId tr =
     (if accountId = [] then (Inl (new_Error ''Account ID is required to fetch contacts.''), tr)
      else let endpoint = ''api/data/v9.2/contacts?$filter=_parentcustomerid_value eq '' @ accountId
           in makeApiRequest E this endpoint ''GET'' JUndefined None tr)"

definition getAssociatedOpportunities ::
  "'n env \<Rightarrow> Dynamics365 \<Rightarrow> string \<Rightarrow> event list \<Rightarrow> 'n jsval outcome" where
  "getAssociatedOpportunities E this accountId tr =
     (if accountId = [] then (Inl (new_Error ''Account ID is required to fetch opportunities.''), tr)
      else let endpoint = ''api/data/v9.2/opportunities?$filter=_customerid_value eq '' @ accountId
           in makeApiRequest E this endpoint ''GET'' JUndefined None tr)"

definition createAccount ::
  "'n env \<Rightarrow> Dynamics365 \<Rightarrow> 'n jsval \<Rightarrow> event list \<Rightarrow> 'n jsval outcome" where
  "createAccount E this accountData tr =
     (if \<not> truthy E accountData
      then (Inl (new_Error ''Account data is required to create an account.''), tr)
      else let endpoint = ''api/data/v9.2/accounts''
           in makeApiRequest E this endpoint ''POST'' accountData None tr)"

definition updateAccount ::
  "'n env \<Rightarrow> Dynamics365 \<Rightarrow> string \<Rightarrow> 'n jsval \<Rightarrow> event list \<Rightarrow> 'n jsval outcome" where
  "updateAccount E this accountId accountData tr =
     (if accountId = [] then (Inl (new_Error ''Account ID is required to update an account.''), tr)
      else if \<not> truthy E accountData
      then (Inl (new_Error ''Account data is required to update an account.''), tr)
      else let endpoint = ''api/data/v9.2/accounts('' @ accountId @ '')''
           in makeApiRequest E this endpoint ''PATCH'' accountData None tr)"

section \<open>What the specification calls one separating slash\<close>

text \<open>
  The specification's wording for the request URL: the base URL and the relative endpoint
  are joined with exactly one slash between them, no double slash and no missing slash.
  As a predicate on the three strings: the URL is the base without the slashes it ends
  in, one slash, and the endpoint without the slashes it begins with.
\<close>

definition trim_trailing_slashes :: "string \<Rightarrow> string" where
  "trim_trailing_slashes s = rev (dropWhile (\<lambda>c. c = CHR ''/'') (rev s))"

definition trim_leading_slashes :: "string \<Rightarrow> string" where
  "trim_leading_slashes s = dropWhile (\<lambda>c. c = CHR ''/'') s"

definition one_separating_slash :: "string \<Rightarrow> string \<Rightarrow> string \<Rightarrow> bool" where
  "one_separating_slash base endpoint u =
     (u = trim_trailing_slashes base @ ''/'' @ trim_leading_slashes endpoint)"

section \<open>Concrete gateways and environments\<close>

definition gateway0 :: Dynamics365 where
  "gateway0 = new_Dynamics365 ''app'' ''secret'' ''contoso'' ''https://org.crm.dynamics.com''"

text \<open>
  An environment over natural numbers, built from the answers of the identity provider
  and of the resource API. Its serialiser is never reached by the examples below, which
  send no body.
\<close>

definition stub_env ::
  "(event list \<Rightarrow> thrown + AuthenticationResult option)
     \<Rightarrow> (event list \<Rightarrow> http_request \<Rightarrow> thrown + nat Response) \<Rightarrow> nat env" where
  "stub_env idp api =
     \<lparr> num_falsy = (\<lambda>n. n = 0),
       num_to_string = string_of_nat,
       JSON_stringify = (\<lambda>v. ''{}''),
       URL_origin = (\<lambda>s. if s = ''https://org.crm.dynamics.com'' then Inr s
                          else Inl (ErrorObject ''TypeError'' ''Invalid URL'')),
       acquireTokenByClientCredential = (\<lambda>tr c q. idp tr),
       fetch = api \<rparr>"

text \<open>An identity provider that hands out a new token at every exchange.\<close>

definition numbered_token :: "event list \<Rightarrow> thrown + AuthenticationResult option" where
  "numbered_token tr =
     Inr (Some \<lparr> accessToken = ''token-'' @ string_of_nat (length (acquisitions tr)) \<rparr>)"

text \<open>A resource API that answers every request with 404 and the text \<^verbatim>\<open>not found\<close>.\<close>

definition not_found :: "event list \<Rightarrow> http_request \<Rightarrow> thrown + nat Response" where
  "not_found tr r =
     Inr \<lparr> ok = False, status = 404, text_body = Inr ''not found'',
           json_body = Inl (ErrorObject ''SyntaxError'' ''Unexpected token'') \<rparr>"

text \<open>An identity provider that rejects the client, and one that answers \<^verbatim>\<open>null\<close>.\<close>

definition idp_down :: "event list \<Rightarrow> thrown + AuthenticationResult option" where
  "idp_down tr = Inl (ErrorObject ''ClientAuthError'' ''invalid_client'')"

definition idp_null :: "event list \<Rightarrow> thrown + AuthenticationResult option" where
  "idp_null tr = Inr None"

text \<open>A network that is down, and a resource API that answers 200 with a page that is no JSON.\<close>

definition network_down :: "event list \<Rightarrow> http_request \<Rightarrow> thrown + nat Response" where
  "network_down tr r = Inl (ErrorObject ''TypeError'' ''fetch failed'')"

definition bad_json :: "event list \<Rightarrow> http_request \<Rightarrow> thrown + nat Response" where
  "bad_json tr r =
     Inr \<lparr> ok = True, status = 200, text_body = Inr ''<html>'',
           json_body = Inl (ErrorObject ''SyntaxError'' ''Unexpected token < in JSON at position 0'') \<rparr>"

text \<open>
  A resource API that serves the pages it is given (address, body text, decoded body) with
  status 200 and answers 404 everywhere else.
\<close>

definition serves ::
  "(string \<times> string \<times> nat jsval) list \<Rightarrow> event list \<Rightarrow> http_request \<Rightarrow> thrown + nat Response" where
  "serves pages tr r =
     (case map_of pages (url r) of
        None \<Rightarrow> not_found tr r
      | Some (t, v) \<Rightarrow> Inr \<lparr> ok = True, status = 200, text_body = Inr t, json_body = Inr v \<rparr>)"

definition opportunities_page :: "string \<times> string \<times> nat jsval" where
  \<open>opportunities_page =
     (''https://org.crm.dynamics.com/api/data/v9.2/opportunities?$filter=_customerid_value eq acc1'',
      ''{"value":[{"name":"Deal"}]}'',
      JObj [(''value'', JArr [JObj [(''name'', JStr ''Deal'')]])])\<close>

definition contacts_page :: "string \<times> string \<times> nat jsval" where
  \<open>contacts_page =
     (''https://org.crm.dynamics.com/api/data/v9.2/contacts?$filter=_parentcustomerid_value eq acc1'',
      ''{"value":[{"fullname":"Jane Doe"}]}'',
      JObj [(''value'', JArr [JObj [(''fullname'', JStr ''Jane Doe'')]])])\<close>

definition whoami_page :: "string \<times> string \<times> nat jsval" where
  \<open>whoami_page =
     (''https://org.crm.dynamics.com/api/data/v9.2/WhoAmI'',
      ''{"UserId":"u1","BusinessUnitId":"b1","OrganizationId":"o1"}'',
      JObj [(''UserId'', JStr ''u1''), (''BusinessUnitId'', JStr ''b1''),
            (''OrganizationId'', JStr ''o1'')])\<close>

definition systemuser_page :: "string \<times> string \<times> nat jsval" where
  \<open>systemuser_page =
     (''https://org.crm.dynamics.com/api/data/v9.2/systemusers(u1)'',
      ''{"domainname":"jdoe","fullname":"Jane Doe"}'',
      JObj [(''domainname'', JStr ''jdoe''), (''fullname'', JStr ''Jane Doe'')])\<close>

definition anonymous_page :: "string \<times> string \<times> nat jsval" where
  "anonymous_page = (''https://org.crm.dynamics.com/api/data/v9.2/WhoAmI'', ''{}'', JObj [])"

text \<open>
  A lookup that answers 200 with the body \<^verbatim>\<open>null\<close>, and a WhoAmI answer whose user
  identifier is an object with a property \<^verbatim>\<open>toString\<close>.
\<close>

definition null_page :: "string \<times> string \<times> nat jsval" where
  "null_page = (''https://org.crm.dynamics.com/api/data/v9.2/systemusers(u1)'', ''null'', JNull)"

definition odd_page :: "string \<times> string \<times> nat jsval" where
  \<open>odd_page =
     (''https://org.crm.dynamics.com/api/data/v9.2/WhoAmI'',
      ''{"UserId":{"toString":true}}'',
      JObj [(''UserId'', JObj [(''toString'', JBool True)])])\<close>

text \<open>A resource API that answers 500 with a body that breaks off while it is read.\<close>

definition body_unreadable :: "event list \<Rightarrow> http_request \<Rightarrow> thrown + nat Response" where
  "body_unreadable tr r =
     Inr \<lparr> ok = False, status = 500, text_body = Inl (ErrorObject ''TypeError'' ''terminated''),
           json_body = Inl (ErrorObject ''TypeError'' ''terminated'') \<rparr>"

text \<open>A gateway configured with a host name where a URL is expected.\<close>

definition gateway_no_scheme :: Dynamics365 where
  "gateway_no_scheme = new_Dynamics365 ''app'' ''secret'' ''contoso'' ''org.crm.dynamics.com''"

section \<open>Facts about the trace and the two private methods\<close>

lemma fetches_append [simp]: "fetches (xs @ ys) = fetches xs @ fetches ys"
  by (induction xs rule: fetches.induct) auto

lemma acquisitions_append [simp]: "acquisitions (xs @ ys) = acquisitions xs @ acquisitions ys"
  by (induction xs rule: acquisitions.induct) auto

lemma authenticate_origin_failure:
  "URL_origin E (d365Url this) = Inl e \<Longrightarrow> authenticate E this tr = (Inl e, tr)"
  by (simp add: authenticate_def)

lemma authenticate_usable:
  assumes "URL_origin E (d365Url this) = Inr origin"
    and "usable_token (acquireTokenByClientCredential E tr (msalInstance this)
            \<lparr> scopes = [origin @ ''/.default''] \<rparr>) = Inr token"
  shows "authenticate E this tr =
           (Inr token, tr @ [AcquireToken (msalInstance this) \<lparr> scopes = [origin @ ''/.default''] \<rparr>])"
  using assms by (simp add: authenticate_def Let_def)

lemma authenticate_unusable:
  assumes "URL_origin E (d365Url this) = Inr origin"
    and "usable_token (acquireTokenByClientCredential E tr (msalInstance this)
            \<lparr> scopes = [origin @ ''/.default''] \<rparr>) = Inl cause"
  shows "authenticate E this tr =
           (Inl (new_Error (auth_prefix @ error_text cause)),
            tr @ [AcquireToken (msalInstance this) \<lparr> scopes = [origin @ ''/.default''] \<rparr>,
                  ConsoleError ''Token acquisition failed:'' cause])"
  using assms by (simp add: authenticate_def Let_def)

lemma authenticate_fetches: "fetches (snd (authenticate E this tr)) = fetches tr"
  by (simp add: authenticate_def Let_def split: sum.splits)

lemma authenticate_failure_shape:
  assumes "authenticate E this tr = (Inl e, tr1)"
  shows "URL_origin E (d365Url this) = Inl e \<and> tr1 = tr
         \<or> (\<exists>origin cause. URL_origin E (d365Url this) = Inr origin
               \<and> e = new_Error (auth_prefix @ error_text cause))"
  using assms by (auto simp: authenticate_def Let_def split: sum.splits)

lemma makeApiRequest_unauthenticated:
  "authenticate E this tr = (Inl e, tr1) \<Longrightarrow> makeApiRequest E this ep m b h tr = (Inl e, tr1)"
  by (simp add: makeApiRequest_def)

lemma makeApiRequest_decoded:
  assumes "authenticate E this tr = (Inr token, tr1)"
    and "decode_response (fetch E tr1 (api_request E this token ep m b h)) = Inr v"
  shows "makeApiRequest E this ep m b h tr = (Inr v, tr1 @ [Fetch (api_request E this token ep m b h)])"
  using assms by (simp add: makeApiRequest_def Let_def)

lemma makeApiRequest_failed:
  assumes "authenticate E this tr = (Inr token, tr1)"
    and "decode_response (fetch E tr1 (api_request E this token ep m b h)) = Inl cause"
  shows "makeApiRequest E this ep m b h tr =
           (Inl (new_Error (api_prefix @ error_text cause)),
            tr1 @ [Fetch (api_request E this token ep m b h),
                   ConsoleError (''API request to '' @ request_url this ep @ '' failed:'') cause])"
  using assms by (simp add: makeApiRequest_def Let_def api_request_def)

lemma makeApiRequest_fetches:
  assumes "authenticate E this tr = (Inr token, tr1)"
  shows "fetches (snd (makeApiRequest E this ep m b h tr)) =
           fetches tr @ [api_request E this token ep m b h]"
proof -
  have "fetches tr1 = fetches tr"
    using authenticate_fetches [of E this tr] assms by simp
  then show ?thesis
    using assms by (simp add: makeApiRequest_def Let_def split: sum.splits)
qed

lemma makeApiRequest_no_fetch:
  assumes "authenticate E this tr = (Inl e, tr1)"
  shows "fetches (snd (makeApiRequest E this ep m b h tr)) = fetches tr"
  using authenticate_fetches [of E this tr] assms by (simp add: makeApiRequest_def)

lemma makeApiRequest_fetches_extend:
  "\<exists>sent. fetches (snd (makeApiRequest E this ep m b h tr)) = fetches tr @ sent"
proof (cases "authenticate E this tr")
  case (Pair res tr1)
  then show ?thesis
    by (cases res) (auto simp: makeApiRequest_fetches makeApiRequest_no_fetch)
qed

lemma prefixes_differ:
  "\<not> prefix api_prefix (auth_prefix @ s)" "\<not> prefix auth_prefix (api_prefix @ s)"
  by (simp_all add: api_prefix_def auth_prefix_def)

lemma api_request_plain_get:
  "api_request E this token ep m JUndefined None =
     \<lparr> url = request_url this ep, http_method = m, headers = standard_headers token, body = None \<rparr>"
  by (simp add: api_request_def request_headers_def)

lemma gateway0_authenticates:
  "authenticate (stub_env numbered_token api) gateway0 [] =
     (Inr ''token-0'',
      [AcquireToken (msalInstance gateway0) \<lparr> scopes = [''https://org.crm.dynamics.com/.default''] \<rparr>])"
  by (simp add: authenticate_def stub_env_def gateway0_def new_Dynamics365_def numbered_token_def
      usable_token_def string_of_nat.simps)

lemma trim_trailing_none:
  "\<not> endsWith_slash s \<Longrightarrow> trim_trailing_slashes s = s"
  by (cases s rule: rev_cases) (simp_all add: endsWith_slash_def trim_trailing_slashes_def)

lemma trim_trailing_one:
  "\<not> endsWith_slash s \<Longrightarrow> trim_trailing_slashes (s @ ''/'') = s"
  by (cases s rule: rev_cases) (simp_all add: endsWith_slash_def trim_trailing_slashes_def)

lemma trim_leading_none:
  "\<not> prefix ''/'' s \<Longrightarrow> trim_leading_slashes s = s"
  by (cases s) (simp_all add: trim_leading_slashes_def)

lemma carries_UserId_iff:
  "carries_UserId E data \<longleftrightarrow>
     (\<exists>fs uid. data = JObj fs \<and> map_of fs ''UserId'' = Some uid \<and> truthy E uid)"
  by (cases data) (auto simp: carries_UserId_def split: option.splits)

lemma carries_UserId_object:
  "carries_UserId E data \<Longrightarrow> \<exists>fs. data = JObj fs"
  by (cases data) (simp_all add: carries_UserId_def)

lemma get_prop_defined:
  "v \<noteq> JNull \<Longrightarrow> v \<noteq> JUndefined \<Longrightarrow> \<exists>p. get_prop v k = Inr p"
  by (cases v) simp_all

lemma get_prop_merged:
  "get_prop (set_prop (set_prop (JObj fs) ''UserName'' d) ''FullName'' f) k =
     (if k = ''FullName'' then Inr f else if k = ''UserName'' then Inr d else get_prop (JObj fs) k)"
  by (simp add: update_conv')

section \<open>Argument checks of the typed operations\<close>

text \<open>
  Claim C2 names the failure of the two argument checks a \<^verbatim>\<open>ValidationError\<close> with the
  message \<^verbatim>\<open>Account ID is required\<close>. The source raises both with \<^verbatim>\<open>new Error(...)\<close>, and the
  message of the first is the longer \<^verbatim>\<open>Account ID is required to fetch opportunities.\<close>
\<close>

theorem validation_kind_counterexample:
  "fst (getAssociatedOpportunities (stub_env numbered_token not_found) gateway0 [] []) =
     Inl (ErrorObject ''Error'' ''Account ID is required to fetch opportunities.'')
   \<and> constructor_name (ErrorObject ''Error'' ''Account ID is required to fetch opportunities.'')
       \<noteq> Some ''ValidationError''
   \<and> error_text (ErrorObject ''Error'' ''Account ID is required to fetch opportunities.'')
       \<noteq> ''Account ID is required''
   \<and> fst (createAccount (stub_env numbered_token not_found) gateway0 JUndefined []) =
     Inl (ErrorObject ''Error'' ''Account data is required to create an account.'')
   \<and> constructor_name (ErrorObject ''Error'' ''Account data is required to create an account.'')
       \<noteq> Some ''ValidationError''"
  by (simp add: getAssociatedOpportunities_def createAccount_def new_Error_def)

text \<open>
  Claim C2, amended. For every empty account id \<open>getAssociatedOpportunities\<close> fails with a
  plain \<^verbatim>\<open>Error\<close> whose message is \<^verbatim>\<open>Account ID is required to fetch opportunities.\<close>, and for
  every missing (undefined, or otherwise falsy) account record \<open>createAccount\<close> fails with a
  plain \<^verbatim>\<open>Error\<close> whose message is \<^verbatim>\<open>Account data is required to create an account.\<close>; in
  both cases the trace comes back unchanged: no token exchange and no HTTP request has
  taken place.
\<close>

theorem validation_precedes_network:
  "getAssociatedOpportunities E this [] tr =
     (Inl (ErrorObject ''Error'' ''Account ID is required to fetch opportunities.''), tr)
   \<and> (\<not> truthy E accountData \<longrightarrow>
        createAccount E this accountData tr =
          (Inl (ErrorObject ''Error'' ''Account data is required to create an account.''), tr))"
  by (simp add: getAssociatedOpportunities_def createAccount_def new_Error_def)

theorem validation_precedes_network_witness:
  "\<not> truthy (stub_env numbered_token not_found) JUndefined
   \<and> createAccount (stub_env numbered_token not_found) gateway0 JUndefined [] =
       (Inl (ErrorObject ''Error'' ''Account data is required to create an account.''), [])
   \<and> getAssociatedOpportunities (stub_env numbered_token not_found) gateway0 [] [] =
       (Inl (ErrorObject ''Error'' ''Account ID is required to fetch opportunities.''), [])"
  using validation_precedes_network [of "stub_env numbered_token not_found" gateway0 "[]" JUndefined]
  by simp

text \<open>
  Claim C8 names both failures of \<open>updateAccount\<close> a \<^verbatim>\<open>ValidationError\<close>. The source raises
  both with \<^verbatim>\<open>new Error(...)\<close>; they differ in their message only.
\<close>

theorem updateAccount_kind_counterexample:
  "fst (updateAccount (stub_env numbered_token not_found) gateway0 [] JUndefined []) =
     Inl (ErrorObject ''Error'' ''Account ID is required to update an account.'')
   \<and> constructor_name (ErrorObject ''Error'' ''Account ID is required to update an account.'')
       \<noteq> Some ''ValidationError''
   \<and> fst (updateAccount (stub_env numbered_token not_found) gateway0 ''acc1'' JUndefined []) =
     Inl (ErrorObject ''Error'' ''Account data is required to update an account.'')
   \<and> constructor_name (ErrorObject ''Error'' ''Account data is required to update an account.'')
       \<noteq> Some ''ValidationError''"
  by (simp add: updateAccount_def new_Error_def)

text \<open>
  Claim C8, amended. \<open>updateAccount\<close> checks the account id first and the account record
  second, each with a plain \<^verbatim>\<open>Error\<close> and a message of its own: an empty id fails with
  \<^verbatim>\<open>Account ID is required to update an account.\<close> whatever the record is; a non-empty id
  with a missing record fails with \<^verbatim>\<open>Account data is required to update an account.\<close> In
  both cases the trace is unchanged, so nothing has gone over the network.
\<close>

theorem updateAccount_checks_in_order:
  "(accountId = [] \<longrightarrow>
      updateAccount E this accountId accountData tr =
        (Inl (ErrorObject ''Error'' ''Account ID is required to update an account.''), tr))
   \<and> (accountId \<noteq> [] \<and> \<not> truthy E accountData \<longrightarrow>
      updateAccount E this accountId accountData tr =
        (Inl (ErrorObject ''Error'' ''Account data is required to update an account.''), tr))
   \<and> ErrorObject ''Error'' ''Account ID is required to update an account.''
       \<noteq> ErrorObject ''Error'' ''Account data is required to update an account.''"
  by (simp add: updateAccount_def new_Error_def)

theorem updateAccount_checks_in_order_witness:
  "updateAccount (stub_env numbered_token not_found) gateway0 [] JUndefined [] =
     (Inl (ErrorObject ''Error'' ''Account ID is required to update an account.''), [])
   \<and> updateAccount (stub_env numbered_token not_found) gateway0 []
       (JObj [(''name'', JStr ''X'')]) [] =
     (Inl (ErrorObject ''Error'' ''Account ID is required to update an account.''), [])
   \<and> \<not> truthy (stub_env numbered_token not_found) JUndefined
   \<and> updateAccount (stub_env numbered_token not_found) gateway0 ''acc1'' JUndefined [] =
     (Inl (ErrorObject ''Error'' ''Account data is required to update an account.''), [])"
  using
    updateAccount_checks_in_order
      [of "[]" "stub_env numbered_token not_found" gateway0 JUndefined "[]"]
    updateAccount_checks_in_order
      [of "[]" "stub_env numbered_token not_found" gateway0 "JObj [(''name'', JStr ''X'')]" "[]"]
    updateAccount_checks_in_order
      [of "''acc1''" "stub_env numbered_token not_found" gateway0 JUndefined "[]"]
  by simp

section \<open>The request primitive\<close>

text \<open>
  Claim C1 says that calling code can tell a failed token exchange from a failed request by
  the kind of the error rather than by its text. In the source both are raised with
  \<^verbatim>\<open>new Error(...)\<close>: the error of a rejected client, the error of a 404 response and the
  error of a network fault have the same constructor and differ in their message only.
\<close>

theorem failure_kinds_counterexample:
  "fst (makeApiRequest (stub_env idp_down not_found) gateway0
          ''api/data/v9.2/accounts'' ''GET'' JUndefined None []) =
     Inl (ErrorObject ''Error'' ''Failed to authenticate with Dynamics 365: invalid_client'')
   \<and> fst (makeApiRequest (stub_env numbered_token not_found) gateway0
          ''api/data/v9.2/accounts'' ''GET'' JUndefined None []) =
     Inl (ErrorObject ''Error''
       ''Failed to make API request: API request failed with status: 404, message: not found'')
   \<and> fst (makeApiRequest (stub_env numbered_token network_down) gateway0
          ''api/data/v9.2/accounts'' ''GET'' JUndefined None []) =
     Inl (ErrorObject ''Error'' ''Failed to make API request: fetch failed'')
   \<and> constructor_name
        (ErrorObject ''Error'' ''Failed to authenticate with Dynamics 365: invalid_client'') =
      constructor_name
        (ErrorObject ''Error''
          ''Failed to make API request: API request failed with status: 404, message: not found'')
   \<and> constructor_name
        (ErrorObject ''Error'' ''Failed to authenticate with Dynamics 365: invalid_client'') =
      constructor_name (ErrorObject ''Error'' ''Failed to make API request: fetch failed'')"
  by (simp add: makeApiRequest_def authenticate_def stub_env_def gateway0_def new_Dynamics365_def
      numbered_token_def idp_down_def not_found_def network_down_def usable_token_def
      decode_response_def api_request_def new_Error_def api_prefix_def auth_prefix_def
      string_of_nat.simps)

text \<open>
  Claim C1, amended. For every invocation of the request primitive on a gateway whose base
  URL has an origin, a failure is a plain \<^verbatim>\<open>Error\<close>, and the two families are told apart by
  the text alone: a failure raised during token acquisition has a message that begins with
  \<^verbatim>\<open>Failed to authenticate with Dynamics 365: \<close>, a failure raised by a non-success status
  or by a transport or decoding fault has a message that begins with
  \<^verbatim>\<open>Failed to make API request: \<close>, and no message begins with both.
\<close>

theorem failures_told_apart_by_message:
  assumes "URL_origin E (d365Url this) = Inr origin"
    and "makeApiRequest E this ep m b h tr = (Inl e, tr')"
  shows "constructor_name e = Some ''Error''
       \<and> (case fst (authenticate E this tr) of
            Inl a \<Rightarrow>
              e = a
              \<and> prefix ''Failed to authenticate with Dynamics 365: '' (error_text e)
              \<and> \<not> prefix ''Failed to make API request: '' (error_text e)
          | Inr token \<Rightarrow>
              prefix ''Failed to make API request: '' (error_text e)
              \<and> \<not> prefix ''Failed to authenticate with Dynamics 365: '' (error_text e))"
proof (cases "authenticate E this tr")
  case (Pair res tr1)
  show ?thesis
  proof (cases res)
    case (Inl a)
    with Pair have auth: "authenticate E this tr = (Inl a, tr1)" by simp
    from makeApiRequest_unauthenticated [OF auth, of ep m b h] assms(2)
    have ea: "e = a" by simp
    from authenticate_failure_shape [OF auth] assms(1)
    obtain cause where "a = new_Error (auth_prefix @ error_text cause)" by auto
    with ea have "e = ErrorObject ''Error'' (auth_prefix @ error_text cause)"
      by (simp add: new_Error_def)
    then show ?thesis
      using auth ea by (simp add: auth_prefix_def)
  next
    case (Inr token)
    with Pair have auth: "authenticate E this tr = (Inr token, tr1)" by simp
    show ?thesis
    proof (cases "decode_response (fetch E tr1 (api_request E this token ep m b h))")
      case (Inl cause)
      from makeApiRequest_failed [OF auth Inl] assms(2)
      have "e = ErrorObject ''Error'' (api_prefix @ error_text cause)"
        by (simp add: new_Error_def)
      then show ?thesis
        using auth by (simp add: api_prefix_def)
    next
      case (Inr v)
      from makeApiRequest_decoded [OF auth Inr] assms(2) show ?thesis by simp
    qed
  qed
qed

theorem failures_told_apart_by_message_witness:
  "URL_origin (stub_env idp_down not_found) (d365Url gateway0) = Inr ''https://org.crm.dynamics.com''
   \<and> makeApiRequest (stub_env idp_down not_found) gateway0
        ''api/data/v9.2/accounts'' ''GET'' JUndefined None [] =
       (Inl (ErrorObject ''Error'' ''Failed to authenticate with Dynamics 365: invalid_client''),
        [AcquireToken (msalInstance gateway0)
           \<lparr> scopes = [''https://org.crm.dynamics.com/.default''] \<rparr>,
         ConsoleError ''Token acquisition failed:''
           (ErrorObject ''ClientAuthError'' ''invalid_client'')])
   \<and> prefix ''Failed to authenticate with Dynamics 365: ''
        ''Failed to authenticate with Dynamics 365: invalid_client''
   \<and> \<not> prefix ''Failed to make API request: ''
        ''Failed to authenticate with Dynamics 365: invalid_client''
   \<and> fst (makeApiRequest (stub_env numbered_token not_found) gateway0
        ''api/data/v9.2/accounts'' ''GET'' JUndefined None []) =
       Inl (ErrorObject ''Error''
         ''Failed to make API request: API request failed with status: 404, message: not found'')
   \<and> prefix ''Failed to make API request: ''
        ''Failed to make API request: API request failed with status: 404, message: not found''
   \<and> \<not> prefix ''Failed to authenticate with Dynamics 365: ''
        ''Failed to make API request: API request failed with status: 404, message: not found''"
proof -
  have o1: "URL_origin (stub_env idp_down not_found) (d365Url gateway0) =
              Inr ''https://org.crm.dynamics.com''"
    by (simp add: stub_env_def gateway0_def new_Dynamics365_def)
  have r1: "makeApiRequest (stub_env idp_down not_found) gateway0
        ''api/data/v9.2/accounts'' ''GET'' JUndefined None [] =
       (Inl (ErrorObject ''Error'' ''Failed to authenticate with Dynamics 365: invalid_client''),
        [AcquireToken (msalInstance gateway0)
           \<lparr> scopes = [''https://org.crm.dynamics.com/.default''] \<rparr>,
         ConsoleError ''Token acquisition failed:''
           (ErrorObject ''ClientAuthError'' ''invalid_client'')])"
    by (simp add: makeApiRequest_def authenticate_def stub_env_def gateway0_def
        new_Dynamics365_def idp_down_def usable_token_def new_Error_def auth_prefix_def)
  have o2: "URL_origin (stub_env numbered_token not_found) (d365Url gateway0) =
              Inr ''https://org.crm.dynamics.com''"
    by (simp add: stub_env_def gateway0_def new_Dynamics365_def)
  have r2: "makeApiRequest (stub_env numbered_token not_found) gateway0
        ''api/data/v9.2/accounts'' ''GET'' JUndefined None [] =
       (Inl (ErrorObject ''Error''
         ''Failed to make API request: API request failed with status: 404, message: not found''),
        snd (makeApiRequest (stub_env numbered_token not_found) gateway0
        ''api/data/v9.2/accounts'' ''GET'' JUndefined None []))"
    by (simp add: makeApiRequest_def authenticate_def stub_env_def gateway0_def
        new_Dynamics365_def numbered_token_def not_found_def usable_token_def
        decode_response_def api_request_def new_Error_def api_prefix_def string_of_nat.simps)
  have f2: "fst (makeApiRequest (stub_env numbered_token not_found) gateway0
        ''api/data/v9.2/accounts'' ''GET'' JUndefined None []) =
       Inl (ErrorObject ''Error''
         ''Failed to make API request: API request failed with status: 404, message: not found'')"
    by (rule arg_cong [where f = fst, OF r2, simplified fst_conv])
  show ?thesis
    using failures_told_apart_by_message [OF o1 r1] failures_told_apart_by_message [OF o2 r2]
      o1 r1 f2
    by simp
qed

text \<open>
  Claim C3 says that every invocation acquires a credential, and that a failed acquisition
  is an \<^verbatim>\<open>AuthenticationError\<close> carrying the message of its cause. The source raises a
  rejected exchange with \<^verbatim>\<open>new Error(...)\<close>. And \<open>authenticate\<close> builds the scope with
  \<^verbatim>\<open>new URL(this.d365Url)\<close> before its \<^verbatim>\<open>try\<close> block: on a gateway whose base URL is no URL
  the invocation makes no exchange at all and fails with the \<^verbatim>\<open>TypeError\<close> of the URL
  constructor as it is.
\<close>

theorem fresh_credential_counterexample:
  "makeApiRequest (stub_env idp_down not_found) gateway0
      ''api/data/v9.2/accounts'' ''GET'' JUndefined None [] =
     (Inl (ErrorObject ''Error'' ''Failed to authenticate with Dynamics 365: invalid_client''),
      [AcquireToken (msalInstance gateway0)
         \<lparr> scopes = [''https://org.crm.dynamics.com/.default''] \<rparr>,
       ConsoleError ''Token acquisition failed:''
         (ErrorObject ''ClientAuthError'' ''invalid_client'')])
   \<and> constructor_name
        (ErrorObject ''Error'' ''Failed to authenticate with Dynamics 365: invalid_client'')
       \<noteq> Some ''AuthenticationError''
   \<and> makeApiRequest (stub_env numbered_token not_found) gateway_no_scheme
        ''api/data/v9.2/accounts'' ''GET'' JUndefined None [] =
       (Inl (ErrorObject ''TypeError'' ''Invalid URL''), [])"
  by (simp add: makeApiRequest_def authenticate_def stub_env_def gateway0_def
      gateway_no_scheme_def new_Dynamics365_def idp_down_def usable_token_def new_Error_def
      auth_prefix_def)

text \<open>
  Claim C3, amended. In every invocation of the request primitive on a gateway whose base
  URL has an origin, a token exchange of its own comes first, and the request handed to
  \<open>fetch\<close> is built with the token of that exchange (the answer of the identity provider
  at this point of the trace), never with an earlier one. When the exchange throws,
  answers \<^verbatim>\<open>null\<close> or answers without an access token, the invocation fails with a plain
  \<^verbatim>\<open>Error\<close> whose message is \<^verbatim>\<open>Failed to authenticate with Dynamics 365: \<close> followed by the
  message of the cause, and the trace gains the exchange and a log line but no HTTP
  request.
\<close>

theorem fresh_credential_per_request:
  assumes origin: "URL_origin E (d365Url this) = Inr origin"
  shows
    "(let acq = AcquireToken (msalInstance this) \<lparr> scopes = [origin @ ''/.default''] \<rparr>;
          answer = acquireTokenByClientCredential E tr (msalInstance this)
                     \<lparr> scopes = [origin @ ''/.default''] \<rparr>;
          unusable = ErrorObject ''Error'' ''Token acquisition failed: response is null or invalid.''
      in (answer = Inr (Some r) \<and> accessToken r \<noteq> [] \<longrightarrow>
            (\<exists>log. snd (makeApiRequest E this ep m b h tr) =
                     tr @ [acq, Fetch (api_request E this (accessToken r) ep m b h)] @ log
                   \<and> fetches log = [] \<and> acquisitions log = []))
       \<and> (answer = Inl cause \<longrightarrow>
            makeApiRequest E this ep m b h tr =
              (Inl (ErrorObject ''Error''
                      (''Failed to authenticate with Dynamics 365: '' @ error_text cause)),
               tr @ [acq, ConsoleError ''Token acquisition failed:'' cause]))
       \<and> (answer = Inr None \<or> (answer = Inr (Some r) \<and> accessToken r = []) \<longrightarrow>
            makeApiRequest E this ep m b h tr =
              (Inl (ErrorObject ''Error''
                      (''Failed to authenticate with Dynamics 365: '' @ error_text unusable)),
               tr @ [acq, ConsoleError ''Token acquisition failed:'' unusable])))"
proof -
  let ?q = "\<lparr> scopes = [origin @ ''/.default''] \<rparr>"
  let ?acq = "AcquireToken (msalInstance this) ?q"
  let ?answer = "acquireTokenByClientCredential E tr (msalInstance this) ?q"
  let ?unusable = "ErrorObject ''Error'' ''Token acquisition failed: response is null or invalid.''"
  have usable: "\<exists>log. snd (makeApiRequest E this ep m b h tr) =
                  tr @ [?acq, Fetch (api_request E this (accessToken r) ep m b h)] @ log
                \<and> fetches log = [] \<and> acquisitions log = []"
    if "?answer = Inr (Some r)" "accessToken r \<noteq> []"
  proof -
    have tok: "usable_token ?answer = Inr (accessToken r)"
      using that by (simp add: usable_token_def)
    have auth: "authenticate E this tr = (Inr (accessToken r), tr @ [?acq])"
      by (rule authenticate_usable [OF origin tok])
    show ?thesis
    proof (cases "decode_response (fetch E (tr @ [?acq]) (api_request E this (accessToken r) ep m b h))")
      case (Inl c)
      show ?thesis
        using makeApiRequest_failed [OF auth Inl] by simp
    next
      case (Inr v)
      show ?thesis
        using makeApiRequest_decoded [OF auth Inr] by simp
    qed
  qed
  have thrown: "makeApiRequest E this ep m b h tr =
                 (Inl (ErrorObject ''Error''
                         (''Failed to authenticate with Dynamics 365: '' @ error_text cause)),
                  tr @ [?acq, ConsoleError ''Token acquisition failed:'' cause])"
    if "?answer = Inl cause"
  proof -
    have "usable_token ?answer = Inl cause"
      using that by (simp add: usable_token_def)
    from makeApiRequest_unauthenticated [OF authenticate_unusable [OF origin this]]
    show ?thesis
      by (simp add: new_Error_def auth_prefix_def)
  qed
  have no_token: "makeApiRequest E this ep m b h tr =
                 (Inl (ErrorObject ''Error''
                         (''Failed to authenticate with Dynamics 365: '' @ error_text ?unusable)),
                  tr @ [?acq, ConsoleError ''Token acquisition failed:'' ?unusable])"
    if "?answer = Inr None \<or> (?answer = Inr (Some r) \<and> accessToken r = [])"
  proof -
    have "usable_token ?answer = Inl ?unusable"
      using that by (auto simp: usable_token_def new_Error_def)
    from makeApiRequest_unauthenticated [OF authenticate_unusable [OF origin this]]
    show ?thesis
      by (simp add: new_Error_def auth_prefix_def)
  qed
  show ?thesis
    unfolding Let_def
  proof (intro conjI impI)
    assume "?answer = Inr (Some r) \<and> accessToken r \<noteq> []"
    then show "\<exists>log. snd (makeApiRequest E this ep m b h tr) =
                  tr @ [?acq, Fetch (api_request E this (accessToken r) ep m b h)] @ log
                \<and> fetches log = [] \<and> acquisitions log = []"
      using usable by simp
  next
    assume "?answer = Inl cause"
    then show "makeApiRequest E this ep m b h tr =
                 (Inl (ErrorObject ''Error''
                         (''Failed to authenticate with Dynamics 365: '' @ error_text cause)),
                  tr @ [?acq, ConsoleError ''Token acquisition failed:'' cause])"
      by (rule thrown)
  next
    assume a: "?answer = Inr None \<or> (?answer = Inr (Some r) \<and> accessToken r = [])"
    show "makeApiRequest E this ep m b h tr =
                 (Inl (ErrorObject ''Error''
                         (''Failed to authenticate with Dynamics 365: '' @ error_text ?unusable)),
                  tr @ [?acq, ConsoleError ''Token acquisition failed:'' ?unusable])"
      by (rule no_token [OF a])
  qed
qed

theorem fresh_credential_per_request_witness:
  "URL_origin (stub_env numbered_token not_found) (d365Url gateway0) =
     Inr ''https://org.crm.dynamics.com''
   \<and> (\<exists>log. snd (makeApiRequest (stub_env numbered_token not_found) gateway0
                 ''api/data/v9.2/accounts'' ''GET'' JUndefined None
                 [AcquireToken (msalInstance gateway0) \<lparr> scopes = [''earlier''] \<rparr>]) =
            [AcquireToken (msalInstance gateway0) \<lparr> scopes = [''earlier''] \<rparr>]
            @ [AcquireToken (msalInstance gateway0)
                 \<lparr> scopes = [''https://org.crm.dynamics.com/.default''] \<rparr>,
               Fetch (api_request (stub_env numbered_token not_found) gateway0 ''token-1''
                        ''api/data/v9.2/accounts'' ''GET'' JUndefined None)] @ log
          \<and> fetches log = [] \<and> acquisitions log = [])
   \<and> makeApiRequest (stub_env idp_down not_found) gateway0
         ''api/data/v9.2/accounts'' ''GET'' JUndefined None [] =
       (Inl (ErrorObject ''Error'' ''Failed to authenticate with Dynamics 365: invalid_client''),
        [AcquireToken (msalInstance gateway0)
           \<lparr> scopes = [''https://org.crm.dynamics.com/.default''] \<rparr>,
         ConsoleError ''Token acquisition failed:''
           (ErrorObject ''ClientAuthError'' ''invalid_client'')])
   \<and> fst (makeApiRequest (stub_env idp_null not_found) gateway0
         ''api/data/v9.2/accounts'' ''GET'' JUndefined None []) =
       Inl (ErrorObject ''Error''
         ''Failed to authenticate with Dynamics 365: Token acquisition failed: response is null or invalid.'')"
proof -
  have o: "URL_origin (stub_env idp api) (d365Url gateway0) = Inr ''https://org.crm.dynamics.com''"
    for idp api
    by (simp add: stub_env_def gateway0_def new_Dynamics365_def)
  show ?thesis
    using
      fresh_credential_per_request
        [OF o [of numbered_token not_found],
         where ep = "''api/data/v9.2/accounts''" and m = "''GET''" and b = JUndefined and h = None
           and tr = "[AcquireToken (msalInstance gateway0) \<lparr> scopes = [''earlier''] \<rparr>]"
           and r = "\<lparr> accessToken = ''token-1'' \<rparr>"]
      fresh_credential_per_request
        [OF o [of idp_down not_found],
         where ep = "''api/data/v9.2/accounts''" and m = "''GET''" and b = JUndefined and h = None
           and tr = "[]" and cause = "ErrorObject ''ClientAuthError'' ''invalid_client''"]
      fresh_credential_per_request
        [OF o [of idp_null not_found],
         where ep = "''api/data/v9.2/accounts''" and m = "''GET''" and b = JUndefined and h = None
           and tr = "[]"]
      o [of numbered_token not_found]
    by (simp add: stub_env_def numbered_token_def idp_down_def idp_null_def string_of_nat.simps)
qed

text \<open>
  Claim C4 names the failure an \<^verbatim>\<open>ApiRequestError\<close> and promises the status code and the
  body text in the message of every response with a non-success status. The source raises
  the failure with \<^verbatim>\<open>new Error(...)\<close>; and when the body of such a response cannot be read,
  \<^verbatim>\<open>await response.text()\<close> throws inside the \<^verbatim>\<open>try\<close> block and the message is built from that
  cause alone, without the status code.
\<close>

theorem api_failures_counterexample:
  "fst (makeApiRequest (stub_env numbered_token body_unreadable) gateway0
          ''api/data/v9.2/accounts'' ''GET'' JUndefined None []) =
     Inl (ErrorObject ''Error'' ''Failed to make API request: terminated'')
   \<and> \<not> sublist ''500'' ''Failed to make API request: terminated''
   \<and> constructor_name (ErrorObject ''Error'' ''Failed to make API request: terminated'')
       \<noteq> Some ''ApiRequestError''
   \<and> fst (makeApiRequest (stub_env numbered_token not_found) gateway0
          ''api/data/v9.2/accounts'' ''GET'' JUndefined None []) =
     Inl (ErrorObject ''Error''
       ''Failed to make API request: API request failed with status: 404, message: not found'')
   \<and> constructor_name
        (ErrorObject ''Error''
          ''Failed to make API request: API request failed with status: 404, message: not found'')
       \<noteq> Some ''ApiRequestError''"
proof -
  have "\<not> sublist ''500'' ''Failed to make API request: terminated''"
    by (simp add: sublist_Cons_right)
  then show ?thesis
    by (simp add: makeApiRequest_def authenticate_def stub_env_def gateway0_def
        new_Dynamics365_def numbered_token_def not_found_def body_unreadable_def
        usable_token_def decode_response_def api_request_def new_Error_def api_prefix_def
        string_of_nat.simps)
qed

text \<open>
  Claim C4, amended. After a successful token exchange: a response whose status is not a
  success and whose body text can be read makes \<open>makeApiRequest\<close> fail with a plain
  \<^verbatim>\<open>Error\<close> whose message contains the status code and the text of the response body; a
  \<open>fetch\<close> that throws, a body that cannot be read and a body that is no JSON make it fail
  with a plain \<^verbatim>\<open>Error\<close> whose message is \<^verbatim>\<open>Failed to make API request: \<close> followed by the
  message of the cause. Status 404 with body \<^verbatim>\<open>not found\<close> is the first example of the
  witness.
\<close>

theorem api_failures_wrapped:
  assumes "authenticate E this tr = (Inr token, tr1)"
  shows "(fetch E tr1 (api_request E this token ep m b h) = Inr response
            \<and> \<not> ok response \<and> text_body response = Inr t \<longrightarrow>
          fst (makeApiRequest E this ep m b h tr) =
            Inl (new_Error (api_prefix @ ''API request failed with status: ''
                   @ string_of_nat (status response) @ '', message: '' @ t))
          \<and> sublist (string_of_nat (status response))
               (api_prefix @ ''API request failed with status: ''
                   @ string_of_nat (status response) @ '', message: '' @ t)
          \<and> sublist t
               (api_prefix @ ''API request failed with status: ''
                   @ string_of_nat (status response) @ '', message: '' @ t))
       \<and> (fetch E tr1 (api_request E this token ep m b h) = Inl cause
          \<or> fetch E tr1 (api_request E this token ep m b h) = Inr response
              \<and> ok response \<and> json_body response = Inl cause
          \<or> fetch E tr1 (api_request E this token ep m b h) = Inr response
              \<and> \<not> ok response \<and> text_body response = Inl cause \<longrightarrow>
          fst (makeApiRequest E this ep m b h tr) =
            Inl (new_Error (api_prefix @ error_text cause)))"
proof (intro conjI impI)
  assume a: "fetch E tr1 (api_request E this token ep m b h) = Inr response
              \<and> \<not> ok response \<and> text_body response = Inr t"
  then have "decode_response (fetch E tr1 (api_request E this token ep m b h)) =
          Inl (new_Error (''API request failed with status: ''
                 @ string_of_nat (status response) @ '', message: '' @ t))"
    by (simp add: decode_response_def)
  from makeApiRequest_failed [OF assms this]
  show "fst (makeApiRequest E this ep m b h tr) =
            Inl (new_Error (api_prefix @ ''API request failed with status: ''
                   @ string_of_nat (status response) @ '', message: '' @ t))"
    by (simp add: new_Error_def)
  show "sublist (string_of_nat (status response))
               (api_prefix @ ''API request failed with status: ''
                   @ string_of_nat (status response) @ '', message: '' @ t)"
    using sublist_appendI [of "string_of_nat (status response)"
            "api_prefix @ ''API request failed with status: ''" "'', message: '' @ t"]
    by simp
  show "sublist t
               (api_prefix @ ''API request failed with status: ''
                   @ string_of_nat (status response) @ '', message: '' @ t)"
    using sublist_append_leftI [of t "api_prefix @ ''API request failed with status: ''
                   @ string_of_nat (status response) @ '', message: ''"]
    by simp
next
  assume "fetch E tr1 (api_request E this token ep m b h) = Inl cause
          \<or> fetch E tr1 (api_request E this token ep m b h) = Inr response
              \<and> ok response \<and> json_body response = Inl cause
          \<or> fetch E tr1 (api_request E this token ep m b h) = Inr response
              \<and> \<not> ok response \<and> text_body response = Inl cause"
  then have "decode_response (fetch E tr1 (api_request E this token ep m b h)) = Inl cause"
    by (auto simp: decode_response_def)
  from makeApiRequest_failed [OF assms this]
  show "fst (makeApiRequest E this ep m b h tr) = Inl (new_Error (api_prefix @ error_text cause))"
    by simp
qed

theorem api_failures_wrapped_witness:
  "authenticate (stub_env numbered_token not_found) gateway0 [] =
     (Inr ''token-0'',
      [AcquireToken (msalInstance gateway0) \<lparr> scopes = [''https://org.crm.dynamics.com/.default''] \<rparr>])
   \<and> fst (makeApiRequest (stub_env numbered_token not_found) gateway0
            ''api/data/v9.2/accounts'' ''GET'' JUndefined None []) =
       Inl (ErrorObject ''Error''
         ''Failed to make API request: API request failed with status: 404, message: not found'')
   \<and> sublist ''404''
        ''Failed to make API request: API request failed with status: 404, message: not found''
   \<and> sublist ''not found''
        ''Failed to make API request: API request failed with status: 404, message: not found''
   \<and> fst (makeApiRequest (stub_env numbered_token network_down) gateway0
            ''api/data/v9.2/accounts'' ''GET'' JUndefined None []) =
       Inl (ErrorObject ''Error'' ''Failed to make API request: fetch failed'')
   \<and> fst (makeApiRequest (stub_env numbered_token bad_json) gateway0
            ''api/data/v9.2/accounts'' ''GET'' JUndefined None []) =
       Inl (ErrorObject ''Error''
         ''Failed to make API request: Unexpected token < in JSON at position 0'')"
  using
    api_failures_wrapped
      [OF gateway0_authenticates [of not_found],
       of "''api/data/v9.2/accounts''" "''GET''" JUndefined None
          "\<lparr> ok = False, status = 404, text_body = Inr ''not found'',
             json_body = Inl (ErrorObject ''SyntaxError'' ''Unexpected token'') \<rparr>"
          "''not found''"]
    api_failures_wrapped
      [OF gateway0_authenticates [of network_down],
       of "''api/data/v9.2/accounts''" "''GET''" JUndefined None _ _
          "ErrorObject ''TypeError'' ''fetch failed''"]
    api_failures_wrapped
      [OF gateway0_authenticates [of bad_json],
       of "''api/data/v9.2/accounts''" "''GET''" JUndefined None
          "\<lparr> ok = True, status = 200, text_body = Inr ''<html>'',
             json_body = Inl (ErrorObject ''SyntaxError''
                                ''Unexpected token < in JSON at position 0'') \<rparr>" _
          "ErrorObject ''SyntaxError'' ''Unexpected token < in JSON at position 0''"]
    gateway0_authenticates [of not_found]
  by (simp add: stub_env_def not_found_def network_down_def bad_json_def
      string_of_nat.simps new_Error_def api_prefix_def)

text \<open>
  Claim C7. Every request that an invocation of \<open>makeApiRequest\<close> hands to \<open>fetch\<close> carries
  the bearer token of this invocation's exchange, \<^verbatim>\<open>Accept\<close> and \<^verbatim>\<open>Content-Type\<close> set to
  \<^verbatim>\<open>application/json\<close> and the two OData version headers set to \<^verbatim>\<open>4.0\<close>; a header the
  caller supplies is added, and under a name of the standard set it replaces the standard
  value.
\<close>

theorem standard_headers_on_every_request:
  assumes "fetches (snd (makeApiRequest E this ep m b h tr)) = fetches tr @ sent"
    and "req \<in> set sent"
  shows "\<exists>token tr1. authenticate E this tr = (Inr token, tr1)
           \<and> (\<forall>k. headers req k =
                 (case (case h of None \<Rightarrow> Map.empty | Some extra \<Rightarrow> extra) k of
                    Some v \<Rightarrow> Some v
                  | None \<Rightarrow>
                      [''Authorization'' \<mapsto> ''Bearer '' @ token,
                       ''Accept'' \<mapsto> ''application/json'',
                       ''Content-Type'' \<mapsto> ''application/json'',
                       ''OData-MaxVersion'' \<mapsto> ''4.0'',
                       ''OData-Version'' \<mapsto> ''4.0''] k))"
proof (cases "authenticate E this tr")
  case (Pair res tr1)
  show ?thesis
  proof (cases res)
    case (Inl e)
    with Pair have "fetches (snd (makeApiRequest E this ep m b h tr)) = fetches tr"
      by (simp add: makeApiRequest_no_fetch)
    with assms show ?thesis by simp
  next
    case (Inr token)
    with Pair have auth: "authenticate E this tr = (Inr token, tr1)" by simp
    from makeApiRequest_fetches [OF auth, of ep m b h] assms(1)
    have "sent = [api_request E this token ep m b h]" by simp
    with assms(2) have req: "req = api_request E this token ep m b h" by simp
    have "headers req k =
            (case (case h of None \<Rightarrow> Map.empty | Some extra \<Rightarrow> extra) k of
               Some v \<Rightarrow> Some v
             | None \<Rightarrow> standard_headers token k)" for k
      unfolding req api_request_def request_headers_def
      by (simp add: map_add_def)
    then show ?thesis
      using auth unfolding standard_headers_def by blast
  qed
qed

theorem standard_headers_on_every_request_witness:
  "fetches (snd (makeApiRequest (stub_env numbered_token not_found) gateway0
                   ''api/data/v9.2/accounts(acc1)'' ''GET'' JUndefined
                   (Some [''Accept'' \<mapsto> ''text/plain'', ''Prefer'' \<mapsto> ''return=representation'']) [])) =
     fetches [] @ [api_request (stub_env numbered_token not_found) gateway0 ''token-0''
                   ''api/data/v9.2/accounts(acc1)'' ''GET'' JUndefined
                   (Some [''Accept'' \<mapsto> ''text/plain'', ''Prefer'' \<mapsto> ''return=representation''])]
   \<and> map (\<lambda>req. map (headers req)
                  [''Authorization'', ''Accept'', ''Content-Type'', ''OData-MaxVersion'',
                   ''OData-Version'', ''Prefer'', ''Cookie''])
        (fetches (snd (makeApiRequest (stub_env numbered_token not_found) gateway0
                   ''api/data/v9.2/accounts(acc1)'' ''GET'' JUndefined
                   (Some [''Accept'' \<mapsto> ''text/plain'', ''Prefer'' \<mapsto> ''return=representation'']) []))) =
       [[Some ''Bearer token-0'', Some ''text/plain'', Some ''application/json'', Some ''4.0'',
         Some ''4.0'', Some ''return=representation'', None]]"
proof -
  let ?E = "stub_env numbered_token not_found"
  let ?h = "Some [''Accept'' \<mapsto> ''text/plain'', ''Prefer'' \<mapsto> ''return=representation'']"
  let ?req = "api_request ?E gateway0 ''token-0'' ''api/data/v9.2/accounts(acc1)'' ''GET'' JUndefined ?h"
  have sent: "fetches (snd (makeApiRequest ?E gateway0 ''api/data/v9.2/accounts(acc1)'' ''GET''
                 JUndefined ?h [])) = fetches [] @ [?req]"
    using makeApiRequest_fetches [OF gateway0_authenticates [of not_found]] by simp
  have mem: "?req \<in> set [?req]" by simp
  from standard_headers_on_every_request [OF sent mem]
  obtain token tr1 where
    auth: "authenticate ?E gateway0 [] = (Inr token, tr1)"
    and hd: "\<And>k. headers ?req k =
                 (case (case ?h of None \<Rightarrow> Map.empty | Some extra \<Rightarrow> extra) k of
                    Some v \<Rightarrow> Some v
                  | None \<Rightarrow>
                      [''Authorization'' \<mapsto> ''Bearer '' @ token,
                       ''Accept'' \<mapsto> ''application/json'',
                       ''Content-Type'' \<mapsto> ''application/json'',
                       ''OData-MaxVersion'' \<mapsto> ''4.0'',
                       ''OData-Version'' \<mapsto> ''4.0''] k)"
    by blast
  from auth have token: "token = ''token-0''"
    by (simp add: gateway0_authenticates)
  have "map (headers ?req)
          [''Authorization'', ''Accept'', ''Content-Type'', ''OData-MaxVersion'',
           ''OData-Version'', ''Prefer'', ''Cookie''] =
        [Some ''Bearer token-0'', Some ''text/plain'', Some ''application/json'', Some ''4.0'',
         Some ''4.0'', Some ''return=representation'', None]"
    unfolding list.map hd token by simp
  with sent show ?thesis by simp
qed

text \<open>
  Claim C6 holds for base URLs that end in at most one slash: with \<^verbatim>\<open>//\<close> at the end of
  the base URL the source, which only tests \<^verbatim>\<open>endsWith("/")\<close>, keeps both slashes.
\<close>

theorem one_slash_join_counterexample:
  "request_url (new_Dynamics365 ''app'' ''secret'' ''contoso'' ''https://org.crm.dynamics.com//'')
     ''api/data/v9.2/accounts'' =
     ''https://org.crm.dynamics.com//api/data/v9.2/accounts''
   \<and> \<not> one_separating_slash ''https://org.crm.dynamics.com//'' ''api/data/v9.2/accounts''
        (request_url
           (new_Dynamics365 ''app'' ''secret'' ''contoso'' ''https://org.crm.dynamics.com//'')
           ''api/data/v9.2/accounts'')"
  by (simp add: new_Dynamics365_def request_url_def endsWith_slash_def one_separating_slash_def
      trim_trailing_slashes_def trim_leading_slashes_def)

text \<open>
  Claim C6, amended. For every base URL that does not end in two slashes and every
  relative endpoint (one that does not begin with a slash), the request URL is the base
  URL and the endpoint with exactly one slash between them, whether or not the base URL
  ends in a slash.
\<close>

theorem one_slash_join:
  assumes "\<not> suffix ''//'' (d365Url this)" and "\<not> prefix ''/'' endpoint"
  shows "one_separating_slash (d365Url this) endpoint (request_url this endpoint)"
proof (cases "endsWith_slash (d365Url this)")
  case True
  then obtain stem where stem: "d365Url this = stem @ ''/''"
    by (cases "d365Url this" rule: rev_cases) (simp_all add: endsWith_slash_def)
  with assms(1) have "\<not> endsWith_slash stem"
    by (cases stem rule: rev_cases) (simp_all add: endsWith_slash_def suffix_def)
  then have "trim_trailing_slashes (d365Url this) = stem"
    unfolding stem by (rule trim_trailing_one)
  with True stem assms(2) show ?thesis
    by (simp add: one_separating_slash_def request_url_def trim_leading_none)
next
  case False
  with assms(2) show ?thesis
    by (simp add: one_separating_slash_def request_url_def trim_leading_none trim_trailing_none)
qed

theorem one_slash_join_witness:
  "\<not> suffix ''//'' ''https://org.crm.dynamics.com''
   \<and> \<not> suffix ''//'' ''https://org.crm.dynamics.com/''
   \<and> \<not> prefix ''/'' ''api/data/v9.2/accounts''
   \<and> request_url gateway0 ''api/data/v9.2/accounts'' =
        ''https://org.crm.dynamics.com/api/data/v9.2/accounts''
   \<and> request_url (new_Dynamics365 ''app'' ''secret'' ''contoso'' ''https://org.crm.dynamics.com/'')
        ''api/data/v9.2/accounts'' =
        ''https://org.crm.dynamics.com/api/data/v9.2/accounts''
   \<and> one_separating_slash ''https://org.crm.dynamics.com'' ''api/data/v9.2/accounts''
        ''https://org.crm.dynamics.com/api/data/v9.2/accounts''
   \<and> one_separating_slash ''https://org.crm.dynamics.com/'' ''api/data/v9.2/accounts''
        ''https://org.crm.dynamics.com/api/data/v9.2/accounts''"
proof -
  have a: "\<not> suffix ''//'' (d365Url gateway0)"
    by (simp add: gateway0_def new_Dynamics365_def suffix_to_prefix)
  have b: "\<not> suffix ''//''
             (d365Url (new_Dynamics365 ''app'' ''secret'' ''contoso'' ''https://org.crm.dynamics.com/''))"
    by (simp add: new_Dynamics365_def suffix_to_prefix)
  have c: "\<not> prefix ''/'' ''api/data/v9.2/accounts''" by simp
  show ?thesis
    using one_slash_join [OF a c] one_slash_join [OF b c] a b c
    by (simp add: gateway0_def new_Dynamics365_def request_url_def endsWith_slash_def)
qed

section \<open>Queries by account\<close>

text \<open>
  Claim C9. For a non-empty account id, \<open>getAssociatedOpportunities\<close> sends one GET request
  (none when the token exchange fails) to the endpoint
  \<^verbatim>\<open>api/data/v9.2/opportunities?$filter=_customerid_value eq \<close> followed by the account id
  exactly as the caller gave it, with the standard headers and no body, and it returns the
  decoded body of a successful response.
\<close>

theorem opportunities_single_get:
  assumes "accountId \<noteq> []"
  shows "(authenticate E this tr = (Inr token, tr1) \<longrightarrow>
            fetches (snd (getAssociatedOpportunities E this accountId tr)) =
              fetches tr @
                [\<lparr> url = request_url this
                           (''api/data/v9.2/opportunities?$filter=_customerid_value eq '' @ accountId),
                    http_method = ''GET'',
                    headers = standard_headers token,
                    body = None \<rparr>]
          \<and> (fetch E tr1
                 \<lparr> url = request_url this
                           (''api/data/v9.2/opportunities?$filter=_customerid_value eq '' @ accountId),
                    http_method = ''GET'',
                    headers = standard_headers token,
                    body = None \<rparr> = Inr response
               \<and> ok response \<and> json_body response = Inr decoded \<longrightarrow>
              fst (getAssociatedOpportunities E this accountId tr) = Inr decoded))
       \<and> (authenticate E this tr = (Inl e, tr1) \<longrightarrow>
            fetches (snd (getAssociatedOpportunities E this accountId tr)) = fetches tr)
       \<and> suffix accountId
            (request_url this
               (''api/data/v9.2/opportunities?$filter=_customerid_value eq '' @ accountId))"
proof -
  let ?ep = "''api/data/v9.2/opportunities?$filter=_customerid_value eq '' @ accountId"
  have call: "getAssociatedOpportunities E this accountId tr =
                makeApiRequest E this ?ep ''GET'' JUndefined None tr"
    using assms by (simp add: getAssociatedOpportunities_def)
  have sent: "fetches (snd (getAssociatedOpportunities E this accountId tr)) =
                fetches tr @ [\<lparr> url = request_url this ?ep, http_method = ''GET'',
                                 headers = standard_headers token, body = None \<rparr>]"
    if "authenticate E this tr = (Inr token, tr1)"
    using makeApiRequest_fetches [OF that, of ?ep "''GET''" JUndefined None]
    by (simp add: call api_request_plain_get)
  have decoded: "fst (getAssociatedOpportunities E this accountId tr) = Inr decoded"
    if "authenticate E this tr = (Inr token, tr1)"
      and "fetch E tr1 \<lparr> url = request_url this ?ep, http_method = ''GET'',
                          headers = standard_headers token, body = None \<rparr> = Inr response
           \<and> ok response \<and> json_body response = Inr decoded"
  proof -
    have "decode_response (fetch E tr1 (api_request E this token ?ep ''GET'' JUndefined None)) =
            Inr decoded"
      using that(2) by (simp add: api_request_plain_get decode_response_def)
    from makeApiRequest_decoded [OF that(1) this] show ?thesis
      by (simp add: call)
  qed
  have unsent: "fetches (snd (getAssociatedOpportunities E this accountId tr)) = fetches tr"
    if "authenticate E this tr = (Inl e, tr1)"
    using makeApiRequest_no_fetch [OF that] by (simp add: call)
  have verbatim: "suffix accountId (request_url this ?ep)"
    by (simp add: request_url_def Let_def suffix_def)
  show ?thesis
    using sent decoded unsent verbatim by blast
qed

theorem opportunities_single_get_witness:
  "''acc1'' \<noteq> []
   \<and> fetches (snd (getAssociatedOpportunities (stub_env numbered_token (serves [opportunities_page]))
                     gateway0 ''acc1'' [])) =
       [\<lparr> url = ''https://org.crm.dynamics.com/api/data/v9.2/opportunities?$filter=_customerid_value eq acc1'',
           http_method = ''GET'', headers = standard_headers ''token-0'', body = None \<rparr>]
   \<and> fst (getAssociatedOpportunities (stub_env numbered_token (serves [opportunities_page]))
            gateway0 ''acc1'' []) =
       Inr (JObj [(''value'', JArr [JObj [(''name'', JStr ''Deal'')]])])
   \<and> fetches (snd (getAssociatedOpportunities (stub_env idp_down (serves [opportunities_page]))
                     gateway0 ''acc1'' [])) = []
   \<and> suffix ''acc 1&$top=1''
        (request_url gateway0
           (''api/data/v9.2/opportunities?$filter=_customerid_value eq '' @ ''acc 1&$top=1''))"
proof -
  let ?E = "stub_env numbered_token (serves [opportunities_page])"
  let ?D = "stub_env idp_down (serves [opportunities_page])"
  have ne: "''acc1'' \<noteq> []" by simp
  have down: "authenticate ?D gateway0 [] =
     (Inl (new_Error (auth_prefix @ ''invalid_client'')),
      [AcquireToken (msalInstance gateway0) \<lparr> scopes = [''https://org.crm.dynamics.com/.default''] \<rparr>,
       ConsoleError ''Token acquisition failed:'' (ErrorObject ''ClientAuthError'' ''invalid_client'')])"
    by (simp add: authenticate_def stub_env_def gateway0_def new_Dynamics365_def idp_down_def
        usable_token_def)
  show ?thesis
    using
      opportunities_single_get [OF ne, of ?E gateway0 "[]" "''token-0''"
        "[AcquireToken (msalInstance gateway0) \<lparr> scopes = [''https://org.crm.dynamics.com/.default''] \<rparr>]"
        "\<lparr> ok = True, status = 200, text_body = Inr (fst (snd opportunities_page)),
           json_body = Inr (snd (snd opportunities_page)) \<rparr>"
        "snd (snd opportunities_page)"]
      opportunities_single_get [OF ne, of ?D gateway0 "[]" _ _ _ _
        "new_Error (auth_prefix @ ''invalid_client'')"]
      opportunities_single_get [of "''acc 1&$top=1''" ?E gateway0]
      gateway0_authenticates [of "serves [opportunities_page]"] down
    by (simp add: stub_env_def serves_def opportunities_page_def request_url_def gateway0_def
        new_Dynamics365_def endsWith_slash_def)
qed

text \<open>
  Claim C10. \<open>getAssociatedContacts\<close> is a sixth typed operation. An empty account id makes
  it fail with \<^verbatim>\<open>Account ID is required to fetch contacts.\<close> and an unchanged trace. A
  non-empty one makes it send one GET request (none when the token exchange fails) to
  \<^verbatim>\<open>api/data/v9.2/contacts?$filter=_parentcustomerid_value eq \<close> followed by the account id
  as given, and return the decoded body of a successful response.
\<close>

theorem contacts_operation:
  "(accountId = [] \<longrightarrow>
      getAssociatedContacts E this accountId tr =
        (Inl (new_Error ''Account ID is required to fetch contacts.''), tr))
   \<and> (accountId \<noteq> [] \<longrightarrow>
        (authenticate E this tr = (Inr token, tr1) \<longrightarrow>
            fetches (snd (getAssociatedContacts E this accountId tr)) =
              fetches tr @
                [\<lparr> url = request_url this
                           (''api/data/v9.2/contacts?$filter=_parentcustomerid_value eq '' @ accountId),
                    http_method = ''GET'',
                    headers = standard_headers token,
                    body = None \<rparr>]
          \<and> (fetch E tr1
                 \<lparr> url = request_url this
                           (''api/data/v9.2/contacts?$filter=_parentcustomerid_value eq '' @ accountId),
                    http_method = ''GET'',
                    headers = standard_headers token,
                    body = None \<rparr> = Inr response
               \<and> ok response \<and> json_body response = Inr decoded \<longrightarrow>
              fst (getAssociatedContacts E this accountId tr) = Inr decoded))
       \<and> (authenticate E this tr = (Inl e, tr1) \<longrightarrow>
            fetches (snd (getAssociatedContacts E this accountId tr)) = fetches tr)
       \<and> suffix accountId
            (request_url this
               (''api/data/v9.2/contacts?$filter=_parentcustomerid_value eq '' @ accountId)))"
proof -
  let ?ep = "''api/data/v9.2/contacts?$filter=_parentcustomerid_value eq '' @ accountId"
  have refused: "getAssociatedContacts E this accountId tr =
                   (Inl (new_Error ''Account ID is required to fetch contacts.''), tr)"
    if "accountId = []"
    using that by (simp add: getAssociatedContacts_def)
  have call: "getAssociatedContacts E this accountId tr =
                makeApiRequest E this ?ep ''GET'' JUndefined None tr"
    if "accountId \<noteq> []"
    using that by (simp add: getAssociatedContacts_def)
  have sent: "fetches (snd (getAssociatedContacts E this accountId tr)) =
                fetches tr @ [\<lparr> url = request_url this ?ep, http_method = ''GET'',
                                 headers = standard_headers token, body = None \<rparr>]"
    if "accountId \<noteq> []" "authenticate E this tr = (Inr token, tr1)"
    using makeApiRequest_fetches [OF that(2), of ?ep "''GET''" JUndefined None]
    by (simp add: call [OF that(1)] api_request_plain_get)
  have decoded: "fst (getAssociatedContacts E this accountId tr) = Inr decoded"
    if "accountId \<noteq> []" "authenticate E this tr = (Inr token, tr1)"
      and "fetch E tr1 \<lparr> url = request_url this ?ep, http_method = ''GET'',
                          headers = standard_headers token, body = None \<rparr> = Inr response
           \<and> ok response \<and> json_body response = Inr decoded"
  proof -
    have "decode_response (fetch E tr1 (api_request E this token ?ep ''GET'' JUndefined None)) =
            Inr decoded"
      using that(3) by (simp add: api_request_plain_get decode_response_def)
    from makeApiRequest_decoded [OF that(2) this] show ?thesis
      by (simp add: call [OF that(1)])
  qed
  have unsent: "fetches (snd (getAssociatedContacts E this accountId tr)) = fetches tr"
    if "accountId \<noteq> []" "authenticate E this tr = (Inl e, tr1)"
    using makeApiRequest_no_fetch [OF that(2)] by (simp add: call [OF that(1)])
  have verbatim: "suffix accountId (request_url this ?ep)"
    by (simp add: request_url_def Let_def suffix_def)
  show ?thesis
    using refused sent decoded unsent verbatim by blast
qed

theorem contacts_operation_witness:
  "getAssociatedContacts (stub_env numbered_token (serves [contacts_page])) gateway0 [] [] =
     (Inl (ErrorObject ''Error'' ''Account ID is required to fetch contacts.''), [])
   \<and> ''acc1'' \<noteq> []
   \<and> fetches (snd (getAssociatedContacts (stub_env numbered_token (serves [contacts_page]))
                     gateway0 ''acc1'' [])) =
       [\<lparr> url = ''https://org.crm.dynamics.com/api/data/v9.2/contacts?$filter=_parentcustomerid_value eq acc1'',
           http_method = ''GET'', headers = standard_headers ''token-0'', body = None \<rparr>]
   \<and> fst (getAssociatedContacts (stub_env numbered_token (serves [contacts_page]))
            gateway0 ''acc1'' []) =
       Inr (JObj [(''value'', JArr [JObj [(''fullname'', JStr ''Jane Doe'')]])])
   \<and> fetches (snd (getAssociatedContacts (stub_env idp_down (serves [contacts_page]))
                     gateway0 ''acc1'' [])) = []"
proof -
  let ?E = "stub_env numbered_token (serves [contacts_page])"
  let ?D = "stub_env idp_down (serves [contacts_page])"
  have down: "authenticate ?D gateway0 [] =
     (Inl (new_Error (auth_prefix @ ''invalid_client'')),
      [AcquireToken (msalInstance gateway0) \<lparr> scopes = [''https://org.crm.dynamics.com/.default''] \<rparr>,
       ConsoleError ''Token acquisition failed:'' (ErrorObject ''ClientAuthError'' ''invalid_client'')])"
    by (simp add: authenticate_def stub_env_def gateway0_def new_Dynamics365_def idp_down_def
        usable_token_def)
  show ?thesis
    using
      contacts_operation [of "[]" ?E gateway0 "[]"]
      contacts_operation [of "''acc1''" ?E gateway0 "[]" "''token-0''"
        "[AcquireToken (msalInstance gateway0) \<lparr> scopes = [''https://org.crm.dynamics.com/.default''] \<rparr>]"
        "\<lparr> ok = True, status = 200, text_body = Inr (fst (snd contacts_page)),
           json_body = Inr (snd (snd contacts_page)) \<rparr>"
        "snd (snd contacts_page)"]
      contacts_operation [of "''acc1''" ?D gateway0 "[]" _ _ _ _
        "new_Error (auth_prefix @ ''invalid_client'')"]
      gateway0_authenticates [of "serves [contacts_page]"] down
    by (simp add: stub_env_def serves_def contacts_page_def request_url_def gateway0_def
        new_Dynamics365_def endsWith_slash_def new_Error_def)
qed

section \<open>The current user\<close>

text \<open>
  Claim C5 says that a WhoAmI answer with a user identifier always leads to the second
  request and to the merged result, unless the second call fails. Two answers of the
  resource API show otherwise. A lookup that answers 200 with the body \<^verbatim>\<open>null\<close> is no
  failure of the second call, and yet the operation throws the \<^verbatim>\<open>TypeError\<close> of reading
  \<^verbatim>\<open>domainname\<close> from \<^verbatim>\<open>null\<close>. A user identifier that is an object with a property
  \<^verbatim>\<open>toString\<close> is truthy, and yet the template literal throws before a second request is
  made.
\<close>

theorem whoami_counterexample:
  "fst (makeApiRequest (stub_env numbered_token (serves [whoami_page, null_page])) gateway0
          ''api/data/v9.2/systemusers(u1)'' ''GET'' JUndefined (Some prefer_annotations)
          (snd (makeApiRequest (stub_env numbered_token (serves [whoami_page, null_page])) gateway0
                  ''api/data/v9.2/WhoAmI'' ''GET'' JUndefined None []))) = Inr JNull
   \<and> fst (makeWhoAmIRequest (stub_env numbered_token (serves [whoami_page, null_page])) gateway0 []) =
       Inl (ErrorObject ''TypeError''
              (''Cannot read properties of null (reading '' @ [CHR 0x27] @ ''domainname''
                 @ [CHR 0x27] @ '')''))
   \<and> carries_UserId (stub_env numbered_token (serves [odd_page]))
        (JObj [(''UserId'', JObj [(''toString'', JBool True)])])
   \<and> makeWhoAmIRequest (stub_env numbered_token (serves [odd_page])) gateway0 [] =
       (Inl (ErrorObject ''TypeError'' ''Cannot convert object to primitive value''),
        [AcquireToken (msalInstance gateway0) \<lparr> scopes = [''https://org.crm.dynamics.com/.default''] \<rparr>,
         Fetch \<lparr> url = ''https://org.crm.dynamics.com/api/data/v9.2/WhoAmI'', http_method = ''GET'',
                 headers = standard_headers ''token-0'', body = None \<rparr>])"
proof -
  let ?E = "stub_env numbered_token (serves [whoami_page, null_page])"
  let ?O = "stub_env numbered_token (serves [odd_page])"
  let ?data = "JObj [(''UserId'', JStr ''u1''), (''BusinessUnitId'', JStr ''b1''),
                     (''OrganizationId'', JStr ''o1'')] :: nat jsval"
  let ?odd = "JObj [(''UserId'', JObj [(''toString'', JBool True)])] :: nat jsval"
  let ?acq = "AcquireToken (msalInstance gateway0)
                \<lparr> scopes = [''https://org.crm.dynamics.com/.default''] \<rparr>"
  let ?req1 = "\<lparr> url = ''https://org.crm.dynamics.com/api/data/v9.2/WhoAmI'', http_method = ''GET'',
                  headers = standard_headers ''token-0'', body = None \<rparr>"
  have url1: "request_url gateway0 ''api/data/v9.2/WhoAmI'' =
                ''https://org.crm.dynamics.com/api/data/v9.2/WhoAmI''"
    by (simp add: request_url_def gateway0_def new_Dynamics365_def endsWith_slash_def)
  have url2: "request_url gateway0 ''api/data/v9.2/systemusers(u1)'' =
                ''https://org.crm.dynamics.com/api/data/v9.2/systemusers(u1)''"
    by (simp add: request_url_def gateway0_def new_Dynamics365_def endsWith_slash_def)
  have first: "makeApiRequest ?E gateway0 ''api/data/v9.2/WhoAmI'' ''GET'' JUndefined None [] =
                 (Inr ?data, [?acq, Fetch ?req1])"
    using makeApiRequest_decoded
            [OF gateway0_authenticates [of "serves [whoami_page, null_page]"],
             of "''api/data/v9.2/WhoAmI''" "''GET''" JUndefined None ?data]
    by (simp add: api_request_plain_get url1 decode_response_def stub_env_def serves_def
        whoami_page_def)
  have odd: "makeApiRequest ?O gateway0 ''api/data/v9.2/WhoAmI'' ''GET'' JUndefined None [] =
                 (Inr ?odd, [?acq, Fetch ?req1])"
    using makeApiRequest_decoded
            [OF gateway0_authenticates [of "serves [odd_page]"],
             of "''api/data/v9.2/WhoAmI''" "''GET''" JUndefined None ?odd]
    by (simp add: api_request_plain_get url1 decode_response_def stub_env_def serves_def
        odd_page_def)
  have carries: "carries_UserId ?E ?data"
    by (simp add: carries_UserId_def)
  have carries_odd: "carries_UserId ?O ?odd"
    by (simp add: carries_UserId_def)
  have uid: "ToString ?E (UserId_of ?data) = Inr ''u1''"
    by (simp add: UserId_of_def)
  have uid_odd: "ToString ?O (UserId_of ?odd) = Inl cannot_convert"
    by (simp add: UserId_of_def)
  have auth2: "authenticate ?E gateway0 [?acq, Fetch ?req1] =
                 (Inr ''token-1'', [?acq, Fetch ?req1, ?acq])"
    by (simp add: authenticate_def stub_env_def gateway0_def new_Dynamics365_def
        numbered_token_def usable_token_def string_of_nat.simps)
  let ?req2 = "api_request ?E gateway0 ''token-1'' ''api/data/v9.2/systemusers(u1)'' ''GET''
                 JUndefined (Some prefer_annotations)"
  have lookup: "makeApiRequest ?E gateway0 ''api/data/v9.2/systemusers(u1)'' ''GET'' JUndefined
                  (Some prefer_annotations) [?acq, Fetch ?req1] =
                (Inr JNull, [?acq, Fetch ?req1, ?acq] @ [Fetch ?req2])"
  proof (rule makeApiRequest_decoded [OF auth2])
    have served: "fetch ?E = serves [whoami_page, null_page]"
      by (simp add: stub_env_def)
    have req2: "?req2 =
        \<lparr> url = ''https://org.crm.dynamics.com/api/data/v9.2/systemusers(u1)'',
           http_method = ''GET'', headers = standard_headers ''token-1'' ++ prefer_annotations,
           body = None \<rparr>"
      by (simp add: api_request_def request_headers_def url2)
    show "decode_response (fetch ?E [?acq, Fetch ?req1, ?acq] ?req2) = Inr JNull"
      unfolding req2 served
      by (simp add: decode_response_def serves_def whoami_page_def null_page_def)
  qed
  have thrown: "fst (makeWhoAmIRequest ?E gateway0 []) = Inl (cannot_read ''null'' ''domainname'')"
    by (simp add: makeWhoAmIRequest_def first carries uid lookup)
  have stopped: "makeWhoAmIRequest ?O gateway0 [] = (Inl cannot_convert, [?acq, Fetch ?req1])"
    by (simp add: makeWhoAmIRequest_def odd carries_odd uid_odd)
  show ?thesis
    using lookup thrown carries_odd stopped
    by (simp add: first cannot_read_def cannot_convert_def)
qed

text \<open>
  Claim C5, amended. \<open>makeWhoAmIRequest\<close> first sends GET \<^verbatim>\<open>api/data/v9.2/WhoAmI\<close>, and a
  failure of that call is the failure of the operation. Let the decoded answer be \<open>data\<close>.
  If \<open>data\<close> carries no user identifier (it is no object, or its \<^verbatim>\<open>UserId\<close> is missing or
  falsy), \<open>data\<close> is the result and nothing more happens. If it carries one that the
  template literal converts to a string, the request primitive is invoked a second time,
  for GET \<^verbatim>\<open>api/data/v9.2/systemusers(<UserId>)\<close> with the header
  \<^verbatim>\<open>Prefer: odata.include-annotations="*"\<close>; a failure of that invocation is not caught and
  is the failure of the operation; its decoded answer, when it is not \<^verbatim>\<open>null\<close>, gives the
  result: \<open>data\<close> with \<^verbatim>\<open>UserName\<close> set to the answer's \<^verbatim>\<open>domainname\<close> and \<^verbatim>\<open>FullName\<close> to
  its \<^verbatim>\<open>fullname\<close>, every other property unchanged. The witness is the example of the
  specification.
\<close>

theorem whoami_flow:
   \<open>(authenticate E this tr = (Inr token, tr0) \<longrightarrow>
       (\<exists>later. fetches (snd (makeWhoAmIRequest E this tr)) =
          fetches tr @ \<lparr> url = request_url this ''api/data/v9.2/WhoAmI'', http_method = ''GET'',
                          headers = standard_headers token, body = None \<rparr> # later))
    \<and> (makeApiRequest E this ''api/data/v9.2/WhoAmI'' ''GET'' JUndefined None tr = (Inl e1, tr1) \<longrightarrow>
         makeWhoAmIRequest E this tr = (Inl e1, tr1))
    \<and> (makeApiRequest E this ''api/data/v9.2/WhoAmI'' ''GET'' JUndefined None tr = (Inr data, tr1) \<longrightarrow>
         (\<not> carries_UserId E data \<longrightarrow> makeWhoAmIRequest E this tr = (Inr data, tr1))
       \<and> (carries_UserId E data \<and> ToString E (UserId_of data) = Inr userId \<longrightarrow>
           (let endpoint = ''api/data/v9.2/systemusers('' @ userId @ '')'';
                lookup = makeApiRequest E this endpoint ''GET'' JUndefined
                           (Some [''Prefer'' \<mapsto> ''odata.include-annotations="*"'']) tr1
            in snd (makeWhoAmIRequest E this tr) = snd lookup
             \<and> (authenticate E this tr1 = (Inr token2, tr2) \<longrightarrow>
                  fetches (snd (makeWhoAmIRequest E this tr)) =
                    fetches tr1 @
                      [\<lparr> url = request_url this endpoint, http_method = ''GET'',
                          headers = (standard_headers token2)
                                      (''Prefer'' \<mapsto> ''odata.include-annotations="*"''),
                          body = None \<rparr>])
             \<and> (fst lookup = Inl e \<longrightarrow> fst (makeWhoAmIRequest E this tr) = Inl e)
             \<and> (fst lookup = Inr details \<and> details \<noteq> JNull \<and> details \<noteq> JUndefined \<longrightarrow>
                  (\<exists>merged. fst (makeWhoAmIRequest E this tr) = Inr merged
                     \<and> get_prop merged ''UserName'' = get_prop details ''domainname''
                     \<and> get_prop merged ''FullName'' = get_prop details ''fullname''
                     \<and> (\<forall>k. k \<noteq> ''UserName'' \<and> k \<noteq> ''FullName'' \<longrightarrow>
                           get_prop merged k = get_prop data k))))))\<close>
proof -
  let ?first = "makeApiRequest E this ''api/data/v9.2/WhoAmI'' ''GET'' JUndefined None tr"
  let ?ep = "''api/data/v9.2/systemusers('' @ userId @ '')''"
  let ?lookup = "makeApiRequest E this ?ep ''GET'' JUndefined (Some prefer_annotations) tr1"
  have extends: "\<exists>later. fetches (snd (makeWhoAmIRequest E this tr)) = fetches (snd ?first) @ later"
  proof (cases ?first)
    case (Pair res trf)
    show ?thesis
    proof (cases res)
      case (Inl a)
      with Pair show ?thesis by (simp add: makeWhoAmIRequest_def)
    next
      case (Inr d)
      show ?thesis
      proof (cases "carries_UserId E d")
        case False
        with Pair Inr show ?thesis by (simp add: makeWhoAmIRequest_def)
      next
        case True
        show ?thesis
        proof (cases "ToString E (UserId_of d)")
          case (Inl a)
          with Pair Inr True show ?thesis by (simp add: makeWhoAmIRequest_def)
        next
          case uid: (Inr u)
          let ?snd = "makeApiRequest E this (''api/data/v9.2/systemusers('' @ u @ '')'') ''GET''
                        JUndefined (Some prefer_annotations) trf"
          have "snd (makeWhoAmIRequest E this tr) = snd ?snd"
            using Pair Inr True uid
            by (simp add: makeWhoAmIRequest_def split: prod.splits sum.splits)
          with makeApiRequest_fetches_extend [of E this _ "''GET''" JUndefined
                 "Some prefer_annotations" trf]
          show ?thesis using Pair by simp
        qed
      qed
    qed
  qed
  have one: "\<exists>later. fetches (snd (makeWhoAmIRequest E this tr)) =
          fetches tr @ \<lparr> url = request_url this ''api/data/v9.2/WhoAmI'', http_method = ''GET'',
                          headers = standard_headers token, body = None \<rparr> # later"
    if auth: "authenticate E this tr = (Inr token, tr0)"
  proof -
    from makeApiRequest_fetches [OF auth, of "''api/data/v9.2/WhoAmI''" "''GET''" JUndefined None]
    have "fetches (snd ?first) = fetches tr @
            [\<lparr> url = request_url this ''api/data/v9.2/WhoAmI'', http_method = ''GET'',
                headers = standard_headers token, body = None \<rparr>]"
      by (simp add: api_request_plain_get)
    with extends show ?thesis by auto
  qed
  have refused: "makeWhoAmIRequest E this tr = (Inl e1, tr1)" if "?first = (Inl e1, tr1)"
    using that by (simp add: makeWhoAmIRequest_def)
  have stop: "makeWhoAmIRequest E this tr = (Inr data, tr1)"
    if "?first = (Inr data, tr1)" "\<not> carries_UserId E data"
    using that by (simp add: makeWhoAmIRequest_def)
  have trace: "snd (makeWhoAmIRequest E this tr) = snd ?lookup"
    if "?first = (Inr data, tr1)" "carries_UserId E data" "ToString E (UserId_of data) = Inr userId"
    using that
    by (simp add: makeWhoAmIRequest_def split: prod.splits sum.splits)
  have sent: "fetches (snd (makeWhoAmIRequest E this tr)) =
                fetches tr1 @
                  [\<lparr> url = request_url this ?ep, http_method = ''GET'',
                      headers = standard_headers token2 ++ prefer_annotations, body = None \<rparr>]"
    if f: "?first = (Inr data, tr1)" and c: "carries_UserId E data"
      and u: "ToString E (UserId_of data) = Inr userId"
      and a: "authenticate E this tr1 = (Inr token2, tr2)"
    using makeApiRequest_fetches [OF a, of ?ep "''GET''" JUndefined "Some prefer_annotations"]
    by (simp add: trace [OF f c u] api_request_def request_headers_def)
  have fails: "fst (makeWhoAmIRequest E this tr) = Inl e"
    if "?first = (Inr data, tr1)" "carries_UserId E data"
      "ToString E (UserId_of data) = Inr userId" "fst ?lookup = Inl e"
    using that
    by (cases ?lookup) (simp add: makeWhoAmIRequest_def)
  have merges: "\<exists>merged. fst (makeWhoAmIRequest E this tr) = Inr merged
                   \<and> get_prop merged ''UserName'' = get_prop details ''domainname''
                   \<and> get_prop merged ''FullName'' = get_prop details ''fullname''
                   \<and> (\<forall>k. k \<noteq> ''UserName'' \<and> k \<noteq> ''FullName'' \<longrightarrow>
                         get_prop merged k = get_prop data k)"
    if first: "?first = (Inr data, tr1)" and c: "carries_UserId E data"
      and u: "ToString E (UserId_of data) = Inr userId"
      and l: "fst ?lookup = Inr details"
      and n: "details \<noteq> JNull" "details \<noteq> JUndefined"
  proof -
    from carries_UserId_object [OF c] obtain fs where fs: "data = JObj fs" by blast
    from get_prop_defined [OF n] obtain d where d: "get_prop details ''domainname'' = Inr d"
      by blast
    from get_prop_defined [OF n] obtain f where f: "get_prop details ''fullname'' = Inr f"
      by blast
    obtain tr2 where lk: "?lookup = (Inr details, tr2)"
      using l by (cases ?lookup) simp
    have res: "fst (makeWhoAmIRequest E this tr) =
            Inr (set_prop (set_prop (JObj fs) ''UserName'' d) ''FullName'' f)"
      using c u first lk d f by (simp add: makeWhoAmIRequest_def fs)
    show ?thesis
      unfolding res d f fs
      by (intro exI conjI allI impI, rule refl) (simp_all only: get_prop_merged, simp_all)
  qed
  have pa: "prefer_annotations = [''Prefer'' \<mapsto> ''odata.include-annotations=\"*\"'']"
    by (simp add: prefer_annotations_def)
  have upd: "standard_headers token2 ++ prefer_annotations =
              (standard_headers token2)(''Prefer'' \<mapsto> ''odata.include-annotations=\"*\"'')"
    by (simp add: prefer_annotations_def)
  show ?thesis
    unfolding Let_def pa [symmetric] upd [symmetric]
    using one refused stop trace sent fails merges by blast
qed

theorem whoami_flow_witness:
  \<open>makeApiRequest (stub_env numbered_token (serves [whoami_page, systemuser_page])) gateway0
      ''api/data/v9.2/WhoAmI'' ''GET'' JUndefined None [] =
     (Inr (JObj [(''UserId'', JStr ''u1''), (''BusinessUnitId'', JStr ''b1''),
                 (''OrganizationId'', JStr ''o1'')]),
      [AcquireToken (msalInstance gateway0) \<lparr> scopes = [''https://org.crm.dynamics.com/.default''] \<rparr>,
       Fetch \<lparr> url = ''https://org.crm.dynamics.com/api/data/v9.2/WhoAmI'', http_method = ''GET'',
               headers = standard_headers ''token-0'', body = None \<rparr>])
   \<and> carries_UserId (stub_env numbered_token (serves [whoami_page, systemuser_page]))
        (JObj [(''UserId'', JStr ''u1''), (''BusinessUnitId'', JStr ''b1''),
               (''OrganizationId'', JStr ''o1'')])
   \<and> ToString (stub_env numbered_token (serves [whoami_page, systemuser_page]))
        (UserId_of (JObj [(''UserId'', JStr ''u1''), (''BusinessUnitId'', JStr ''b1''),
                          (''OrganizationId'', JStr ''o1'')])) = Inr ''u1''
   \<and> fst (makeWhoAmIRequest (stub_env numbered_token (serves [whoami_page, systemuser_page]))
            gateway0 []) =
       Inr (JObj [(''UserId'', JStr ''u1''), (''BusinessUnitId'', JStr ''b1''),
                  (''OrganizationId'', JStr ''o1''), (''UserName'', JStr ''jdoe''),
                  (''FullName'', JStr ''Jane Doe'')])
   \<and> fetches (snd (makeWhoAmIRequest (stub_env numbered_token (serves [whoami_page, systemuser_page]))
                     gateway0 [])) =
       [\<lparr> url = ''https://org.crm.dynamics.com/api/data/v9.2/WhoAmI'', http_method = ''GET'',
           headers = standard_headers ''token-0'', body = None \<rparr>,
        \<lparr> url = ''https://org.crm.dynamics.com/api/data/v9.2/systemusers(u1)'', http_method = ''GET'',
           headers = (standard_headers ''token-1'')(''Prefer'' \<mapsto> ''odata.include-annotations="*"''),
           body = None \<rparr>]
   \<and> \<not> carries_UserId (stub_env numbered_token (serves [anonymous_page])) (JObj [])
   \<and> makeWhoAmIRequest (stub_env numbered_token (serves [anonymous_page])) gateway0 [] =
       (Inr (JObj []),
        [AcquireToken (msalInstance gateway0) \<lparr> scopes = [''https://org.crm.dynamics.com/.default''] \<rparr>,
         Fetch \<lparr> url = ''https://org.crm.dynamics.com/api/data/v9.2/WhoAmI'', http_method = ''GET'',
                 headers = standard_headers ''token-0'', body = None \<rparr>])\<close>
proof -
  let ?E = "stub_env numbered_token (serves [whoami_page, systemuser_page])"
  let ?A = "stub_env numbered_token (serves [anonymous_page])"
  let ?data = "JObj [(''UserId'', JStr ''u1''), (''BusinessUnitId'', JStr ''b1''),
                     (''OrganizationId'', JStr ''o1'')] :: nat jsval"
  let ?acq = "AcquireToken (msalInstance gateway0)
                \<lparr> scopes = [''https://org.crm.dynamics.com/.default''] \<rparr>"
  let ?req1 = "\<lparr> url = ''https://org.crm.dynamics.com/api/data/v9.2/WhoAmI'', http_method = ''GET'',
                  headers = standard_headers ''token-0'', body = None \<rparr>"
  have url1: "request_url gateway0 ''api/data/v9.2/WhoAmI'' =
                ''https://org.crm.dynamics.com/api/data/v9.2/WhoAmI''"
    by (simp add: request_url_def gateway0_def new_Dynamics365_def endsWith_slash_def)
  have url2: "request_url gateway0 ''api/data/v9.2/systemusers(u1)'' =
                ''https://org.crm.dynamics.com/api/data/v9.2/systemusers(u1)''"
    by (simp add: request_url_def gateway0_def new_Dynamics365_def endsWith_slash_def)
  have first: "makeApiRequest ?E gateway0 ''api/data/v9.2/WhoAmI'' ''GET'' JUndefined None [] =
                 (Inr ?data, [?acq, Fetch ?req1])"
    using makeApiRequest_decoded
            [OF gateway0_authenticates [of "serves [whoami_page, systemuser_page]"],
             of "''api/data/v9.2/WhoAmI''" "''GET''" JUndefined None ?data]
    by (simp add: api_request_plain_get url1 decode_response_def stub_env_def serves_def
        whoami_page_def)
  have anon: "makeApiRequest ?A gateway0 ''api/data/v9.2/WhoAmI'' ''GET'' JUndefined None [] =
                 (Inr (JObj []), [?acq, Fetch ?req1])"
    using makeApiRequest_decoded
            [OF gateway0_authenticates [of "serves [anonymous_page]"],
             of "''api/data/v9.2/WhoAmI''" "''GET''" JUndefined None "JObj []"]
    by (simp add: api_request_plain_get url1 decode_response_def stub_env_def serves_def
        anonymous_page_def)
  have carries: "carries_UserId ?E ?data"
    by (simp add: carries_UserId_def)
  have absent: "\<not> carries_UserId ?A (JObj [])"
    by (simp add: carries_UserId_def)
  have uid: "ToString ?E (UserId_of ?data) = Inr ''u1''"
    by (simp add: UserId_of_def)
  have auth2: "authenticate ?E gateway0 [?acq, Fetch ?req1] =
                 (Inr ''token-1'', [?acq, Fetch ?req1, ?acq])"
    by (simp add: authenticate_def stub_env_def gateway0_def new_Dynamics365_def
        numbered_token_def usable_token_def string_of_nat.simps)
  let ?req2 = "api_request ?E gateway0 ''token-1'' ''api/data/v9.2/systemusers(u1)'' ''GET''
                 JUndefined (Some prefer_annotations)"
  have req2: "?req2 =
      \<lparr> url = ''https://org.crm.dynamics.com/api/data/v9.2/systemusers(u1)'', http_method = ''GET'',
         headers = (standard_headers ''token-1'')(''Prefer'' \<mapsto> ''odata.include-annotations=\"*\"''),
         body = None \<rparr>"
    by (simp add: api_request_def request_headers_def prefer_annotations_def url2)
  have lookup: "makeApiRequest ?E gateway0 ''api/data/v9.2/systemusers(u1)'' ''GET'' JUndefined
                  (Some prefer_annotations) [?acq, Fetch ?req1] =
                (Inr (JObj [(''domainname'', JStr ''jdoe''), (''fullname'', JStr ''Jane Doe'')]),
                 [?acq, Fetch ?req1, ?acq] @ [Fetch ?req2])"
  proof (rule makeApiRequest_decoded [OF auth2])
    have served: "fetch ?E = serves [whoami_page, systemuser_page]"
      by (simp add: stub_env_def)
    show "decode_response (fetch ?E [?acq, Fetch ?req1, ?acq] ?req2) =
            Inr (JObj [(''domainname'', JStr ''jdoe''), (''fullname'', JStr ''Jane Doe'')])"
      unfolding req2 served
      by (simp add: decode_response_def serves_def whoami_page_def systemuser_page_def)
  qed
  have whole: "fst (makeWhoAmIRequest ?E gateway0 []) =
       Inr (JObj [(''UserId'', JStr ''u1''), (''BusinessUnitId'', JStr ''b1''),
                  (''OrganizationId'', JStr ''o1''), (''UserName'', JStr ''jdoe''),
                  (''FullName'', JStr ''Jane Doe'')])"
    by (simp add: makeWhoAmIRequest_def first carries uid lookup)
  note flow = whoami_flow [where E = ?E and this = gateway0 and tr = "[]" and data = ?data
      and ?tr1.0 = "[?acq, Fetch ?req1]" and userId = "''u1''" and ?token2.0 = "''token-1''"
      and ?tr2.0 = "[?acq, Fetch ?req1, ?acq]"]
  have sent: "fetches (snd (makeWhoAmIRequest ?E gateway0 [])) =
                [?req1,
                 \<lparr> url = ''https://org.crm.dynamics.com/api/data/v9.2/systemusers(u1)'',
                    http_method = ''GET'',
                    headers = (standard_headers ''token-1'')
                                (''Prefer'' \<mapsto> ''odata.include-annotations=\"*\"''),
                    body = None \<rparr>]"
  proof -
    from flow first carries uid
    have "authenticate ?E gateway0 [?acq, Fetch ?req1] =
            (Inr ''token-1'', [?acq, Fetch ?req1, ?acq]) \<longrightarrow>
          fetches (snd (makeWhoAmIRequest ?E gateway0 [])) =
            fetches [?acq, Fetch ?req1] @
              [\<lparr> url = request_url gateway0 (''api/data/v9.2/systemusers('' @ ''u1'' @ '')''),
                  http_method = ''GET'',
                  headers = (standard_headers ''token-1'')
                              (''Prefer'' \<mapsto> ''odata.include-annotations=\"*\"''),
                  body = None \<rparr>]"
      unfolding Let_def by blast
    with auth2 show ?thesis
      by (simp add: url2)
  qed
  from whoami_flow [where E = ?A and this = gateway0 and tr = "[]" and data = "JObj []"
      and ?tr1.0 = "[?acq, Fetch ?req1]"] anon absent
  have alone: "makeWhoAmIRequest ?A gateway0 [] = (Inr (JObj []), [?acq, Fetch ?req1])"
    by blast
  show ?thesis
    using first carries uid whole sent absent alone by blast
qed

end
